theory Spec2Isabelle
  imports Complex_Main "HOL-Library.AList"
begin

section \<open>Data model (src/context/RoomContext.tsx, lines 24--99)\<close>

text \<open>
  The interfaces of RoomContext.tsx become records. An optional field (\<open>points?: number\<close>)
  is an \<open>option\<close>; numbers are integers (timestamps are milliseconds); a
  \<open>Record<string, T>\<close> is an association list in the order \<open>Object.keys\<close> enumerates
  it. Field names shared by two interfaces carry a prefix (\<open>p_\<close> player, \<open>w_\<close> winner,
  \<open>t_\<close> turn, \<open>cd_\<close> countdown, \<open>mode\<close> game mode).
\<close>

datatype ModeType = classic | speed | turnBased | teams | easy | expert

datatype Team = TeamA | TeamB

record Player =
  p_name :: string
  p_isHost :: bool
  joinedAt :: int
  points :: "int option"
  team :: "Team option"
  currentStreak :: "int option"
  bestStreak :: "int option"
  correctAnswers :: "int option"
  wrongAnswers :: "int option"
  lastAnswerTime :: "int option"
  averageResponseTime :: "int option"

record WinnerInfo =
  w_playerId :: string
  w_playerName :: string
  timestamp :: int
  answer :: "string option"
  timeLeft :: "int option"

record GameModeSettings =
  timeLimit :: "int option"
  autoNext :: "bool option"
  teamsEnabled :: "bool option"
  pointsCorrect :: "int option"
  pointsWrong :: "int option"
  buzzDelaySeconds :: "int option"
  oneAttemptPerSong :: "bool option"
  turnBasedEnabled :: "bool option"
  turnAdvantageSeconds :: "int option"

record GameMode =
  modeType :: ModeType
  modeName :: string
  description :: string
  settings :: GameModeSettings

record CurrentTurn =
  t_playerId :: string
  t_playerName :: string
  turnNumber :: int
  startTime :: "int option"
  advantagePhase :: bool
  turnOrder :: "(string \<times> string) list option"
  nextPlayerIndex :: "int option"

record RoomData =
  winnerInfo :: "WinnerInfo option"
  players :: "(string \<times> Player) list"
  gameMode :: "GameMode option"
  currentSong :: "string option"
  buzzEnabled :: "bool option"
  songAttempts :: "(string \<times> string list) list option"
  currentTurn :: "CurrentTurn option"

text \<open>
  The node \<open>rooms/{code}\<close> of the database holds the fields of \<open>RoomData\<close> and, beside
  them, the children the context writes without declaring them in the interface:
  \<open>countdown\<close>, \<open>backgroundMusicControl\<close> (its timestamp; the action is always
  \<open>resume\<close>), \<open>lastBuzzActivity\<close> and \<open>currentTeamTurn\<close>.
\<close>

record CountdownData =
  isActive :: bool
  cd_value :: int
  cd_startTime :: "int option"

record Store =
  room :: RoomData
  countdown :: "CountdownData option"
  backgroundMusicControl :: "int option"
  lastBuzzActivity :: "int option"
  currentTeamTurn :: "Team option"

text \<open>
  The React state a client holds (lines 181--189): \<open>roomData\<close> is the last snapshot the
  subscription delivered, \<open>currentGameMode\<close> a separate piece of state.
\<close>

record Ctx =
  roomCode :: "string option"
  playerName :: "string option"
  playerId :: "string option"
  roomData :: "RoomData option"
  currentGameMode :: "GameMode option"

section \<open>JavaScript truthiness\<close>

text \<open>\<open>!s\<close> holds of a string that is null, undefined or empty: \<open>strVal s = []\<close>.\<close>

definition strVal :: "string option \<Rightarrow> string" where
  "strVal s = (case s of None \<Rightarrow> [] | Some v \<Rightarrow> v)"

text \<open>\<open>a || b\<close> on optional strings, read as a string.\<close>

definition orStr :: "string option \<Rightarrow> string option \<Rightarrow> string" where
  "orStr a b = (if strVal a = [] then strVal b else strVal a)"

text \<open>\<open>n || d\<close> on an optional number: the default also replaces \<open>0\<close>.\<close>

definition numOr :: "int option \<Rightarrow> int \<Rightarrow> int" where
  "numOr n d = (case n of None \<Rightarrow> d | Some v \<Rightarrow> if v = 0 then d else v)"

text \<open>\<open>!!b\<close> on an optional boolean.\<close>

definition flag :: "bool option \<Rightarrow> bool" where
  "flag b = (case b of None \<Rightarrow> False | Some v \<Rightarrow> v)"

text \<open>\<open>a % n\<close>: the remainder of JavaScript takes the sign of the dividend.\<close>

definition jsRem :: "int \<Rightarrow> int \<Rightarrow> int" where
  "jsRem a n = (if 0 \<le> a then a mod n else - ((- a) mod n))"

section \<open>Writes to the store\<close>

text \<open>
  Every \<open>update(ref, {...})\<close> of the modelled functions is one constructor, named after
  the fields it sets. A field of a patch that the object literal does not mention is
  \<open>None\<close> (or \<open>Unchanged\<close>); \<open>Remove\<close> is a field written as \<open>null\<close>.
\<close>

datatype 'a patch = Unchanged | Assign 'a | Remove

record PlayerPatch =
  pp_points :: "int option"
  pp_currentStreak :: "int option"
  pp_bestStreak :: "int option"
  pp_correctAnswers :: "int option"
  pp_wrongAnswers :: "int option"
  pp_lastAnswerTime :: "int option"

datatype dbwrite =
    SongAttemptsWrite "(string \<times> string list) list"
  | WinnerWrite WinnerInfo
  | BackgroundMusicWrite int
  | PlayerWrite string PlayerPatch
  | BuzzEnabledWrite bool int
  | GameModeWrite GameMode "Team option" "CurrentTurn option"
  | CountdownWrite bool int "int patch"
  | CurrentSongWrite string
  | TurnWrite string string int int bool
  | AdvantagePhaseWrite bool

text \<open>
  The functions of \<open>services/firebase\<close> that the context calls are not among the sources.
  A call is recorded as a value, and what it does to the store is a parameter of
  \<open>applyEffect\<close>.
\<close>

datatype service =
    ResetBuzz
  | UpdateBuzzActivity
  | RejectPlayerAnswer
  | AssignPoints string int
  | SubtractPoints string int

datatype effect = Update dbwrite | Service service

definition pick :: "'a option \<Rightarrow> 'a option \<Rightarrow> 'a option" where
  "pick new old = (case new of None \<Rightarrow> old | Some v \<Rightarrow> Some v)"

definition applyPlayerPatch :: "PlayerPatch \<Rightarrow> Player \<Rightarrow> Player" where
  "applyPlayerPatch pp p =
     p\<lparr>points := pick (pp_points pp) (points p),
       currentStreak := pick (pp_currentStreak pp) (currentStreak p),
       bestStreak := pick (pp_bestStreak pp) (bestStreak p),
       correctAnswers := pick (pp_correctAnswers pp) (correctAnswers p),
       wrongAnswers := pick (pp_wrongAnswers pp) (wrongAnswers p),
       lastAnswerTime := pick (pp_lastAnswerTime pp) (lastAnswerTime p)\<rparr>"

text \<open>
  An update below a child that does not exist creates it with the written fields only;
  the fields it lacks read as falsy, which is what the blank records hold.
\<close>

definition blankPlayer :: Player where
  "blankPlayer =
     \<lparr>p_name = [], p_isHost = False, joinedAt = 0, points = None, team = None,
      currentStreak = None, bestStreak = None, correctAnswers = None, wrongAnswers = None,
      lastAnswerTime = None, averageResponseTime = None\<rparr>"

definition blankTurn :: CurrentTurn where
  "blankTurn =
     \<lparr>t_playerId = [], t_playerName = [], turnNumber = 0, startTime = None,
      advantagePhase = False, turnOrder = None, nextPlayerIndex = None\<rparr>"

definition blankCountdown :: CountdownData where
  "blankCountdown = \<lparr>isActive = False, cd_value = 0, cd_startTime = None\<rparr>"

definition turnOf :: "RoomData \<Rightarrow> CurrentTurn" where
  "turnOf rd = (case currentTurn rd of None \<Rightarrow> blankTurn | Some ct \<Rightarrow> ct)"

definition playerOf :: "RoomData \<Rightarrow> string \<Rightarrow> Player" where
  "playerOf rd pid = (case map_of (players rd) pid of None \<Rightarrow> blankPlayer | Some p \<Rightarrow> p)"

definition countdownOf :: "Store \<Rightarrow> CountdownData" where
  "countdownOf st = (case countdown st of None \<Rightarrow> blankCountdown | Some c \<Rightarrow> c)"

definition patchStart :: "int patch \<Rightarrow> int option \<Rightarrow> int option" where
  "patchStart p old = (case p of Unchanged \<Rightarrow> old | Assign t \<Rightarrow> Some t | Remove \<Rightarrow> None)"

text \<open>
  The merge that \<open>update\<close> performs at the written path. The database keeps no empty
  object, so writing an empty \<open>songAttempts\<close> removes the child.
\<close>

fun applyUpdate :: "dbwrite \<Rightarrow> Store \<Rightarrow> Store" where
  "applyUpdate (SongAttemptsWrite m) st =
     st\<lparr>room := (room st)\<lparr>songAttempts := (if m = [] then None else Some m)\<rparr>\<rparr>"
| "applyUpdate (WinnerWrite w) st =
     st\<lparr>room := (room st)\<lparr>winnerInfo := Some w, buzzEnabled := Some False\<rparr>\<rparr>"
| "applyUpdate (BackgroundMusicWrite t) st = st\<lparr>backgroundMusicControl := Some t\<rparr>"
| "applyUpdate (PlayerWrite pid pp) st =
     st\<lparr>room := (room st)\<lparr>players :=
        AList.update pid (applyPlayerPatch pp (playerOf (room st) pid)) (players (room st))\<rparr>\<rparr>"
| "applyUpdate (BuzzEnabledWrite b t) st =
     st\<lparr>room := (room st)\<lparr>buzzEnabled := Some b\<rparr>, lastBuzzActivity := Some t\<rparr>"
| "applyUpdate (GameModeWrite m tt ct) st =
     st\<lparr>room := (room st)\<lparr>gameMode := Some m, currentTurn := pick ct (currentTurn (room st))\<rparr>,
        currentTeamTurn := pick tt (currentTeamTurn st)\<rparr>"
| "applyUpdate (CountdownWrite a v s) st =
     st\<lparr>countdown := Some ((countdownOf st)\<lparr>isActive := a, cd_value := v,
        cd_startTime := patchStart s (cd_startTime (countdownOf st))\<rparr>)\<rparr>"
| "applyUpdate (CurrentSongWrite s) st = st\<lparr>room := (room st)\<lparr>currentSong := Some s\<rparr>\<rparr>"
| "applyUpdate (TurnWrite pid pname n t a) st =
     st\<lparr>room := (room st)\<lparr>currentTurn := Some ((turnOf (room st))\<lparr>t_playerId := pid,
        t_playerName := pname, turnNumber := n, startTime := Some t, advantagePhase := a\<rparr>)\<rparr>\<rparr>"
| "applyUpdate (AdvantagePhaseWrite a) st =
     st\<lparr>room := (room st)\<lparr>currentTurn := Some ((turnOf (room st))\<lparr>advantagePhase := a\<rparr>)\<rparr>\<rparr>"

definition applyUpdates :: "dbwrite list \<Rightarrow> Store \<Rightarrow> Store" where
  "applyUpdates ws st = foldl (\<lambda>s w. applyUpdate w s) st ws"

fun applyEffect :: "(service \<Rightarrow> Store \<Rightarrow> Store) \<Rightarrow> effect \<Rightarrow> Store \<Rightarrow> Store" where
  "applyEffect svc (Update w) st = applyUpdate w st"
| "applyEffect svc (Service s) st = svc s st"

definition applyEffects :: "(service \<Rightarrow> Store \<Rightarrow> Store) \<Rightarrow> effect list \<Rightarrow> Store \<Rightarrow> Store" where
  "applyEffects svc es st = foldl (\<lambda>s e. applyEffect svc e s) st es"

section \<open>Keys the database accepts\<close>

text \<open>
  \<open>update\<close> validates its argument before anything is sent: a key of an object it is
  given must be a non-empty string without \<open>.\<close>, \<open>#\<close>, \<open>$\<close>, \<open>/\<close>, \<open>[\<close>, \<open>]\<close> and
  without control characters, or the call throws. The only keys the modelled functions
  build from data are the song names under \<open>songAttempts\<close>; paths are taken as valid. A
  snapshot holds keys the store holds, which passed this test when they were written, so
  a function that writes back keys of its snapshot only is modelled without the test.
\<close>

datatype error = InvalidKey string

definition forbiddenChar :: "char \<Rightarrow> bool" where
  "forbiddenChar c =
     (c \<in> set ''[].#$/'' \<or> (of_char c :: nat) < 32 \<or> (of_char c :: nat) = 127)"

definition validKey :: "string \<Rightarrow> bool" where
  "validKey k = (k \<noteq> [] \<and> filter forbiddenChar k = [])"

text \<open>The first key of an object that the validation refuses, if any.\<close>

definition invalidKey :: "(string \<times> 'a) list \<Rightarrow> string option" where
  "invalidKey m = find (\<lambda>k. \<not> validKey k) (map fst m)"

text \<open>The writes that reached the store: none when the call threw on its first update.\<close>

definition issued :: "error + dbwrite list \<Rightarrow> dbwrite list" where
  "issued r = (case r of Inl e \<Rightarrow> [] | Inr ws \<Rightarrow> ws)"

section \<open>The room context (src/context/RoomContext.tsx)\<close>

text \<open>
  Each function of the context is modelled by the writes it issues, in the order in which
  it issues them, on the run in which the store acknowledges every write that passes the
  validation. \<open>now\<close> is the value \<open>Date.now()\<close> returns during the call. An early
  \<open>return\<close> is the empty list. The \<open>catch\<close> blocks of the modelled functions write
  nothing, except the one of \<open>startCountdown\<close>, which repeats the terminal countdown
  write.
\<close>

text \<open>Lines 200--202: \<open>isHost\<close> is read off the client's own snapshot.\<close>

definition isHost :: "Ctx \<Rightarrow> bool" where
  "isHost ctx =
     (if strVal (playerId ctx) = [] then False
      else case roomData ctx of
             None \<Rightarrow> False
           | Some rd \<Rightarrow>
               (case map_of (players rd) (strVal (playerId ctx)) of
                  None \<Rightarrow> False
                | Some p \<Rightarrow> p_isHost p))"

definition turnBasedOn :: "GameMode option \<Rightarrow> bool" where
  "turnBasedOn m =
     (case m of None \<Rightarrow> False
      | Some g \<Rightarrow> modeType g = turnBased \<and> flag (turnBasedEnabled (settings g)))"

definition expertOn :: "GameMode option \<Rightarrow> bool" where
  "expertOn m =
     (case m of None \<Rightarrow> False
      | Some g \<Rightarrow> modeType g = expert \<and> flag (oneAttemptPerSong (settings g)))"

text \<open>\<open>roomData.songAttempts || {}\<close> and \<open>songAttempts[song] || []\<close> (lines 462--463).\<close>

definition attemptsOf :: "RoomData \<Rightarrow> (string \<times> string list) list" where
  "attemptsOf rd = (case songAttempts rd of None \<Rightarrow> [] | Some m \<Rightarrow> m)"

definition attemptedPlayers :: "RoomData \<Rightarrow> string \<Rightarrow> string list" where
  "attemptedPlayers rd song = (case map_of (attemptsOf rd) song of None \<Rightarrow> [] | Some ps \<Rightarrow> ps)"

text \<open>The object \<open>updatedAttempts\<close> of lines 472--475.\<close>

definition updatedAttempts :: "RoomData \<Rightarrow> string \<Rightarrow> (string \<times> string list) list" where
  "updatedAttempts rd buzzPlayerId =
     AList.update (strVal (currentSong rd))
       (attemptedPlayers rd (strVal (currentSong rd)) @ [buzzPlayerId]) (attemptsOf rd)"

text \<open>
  Lines 427--509. The checks read the snapshot \<open>roomData\<close>; the writes are plain
  \<open>update\<close> calls. In expert mode the attempts of the current song are written first, in
  an update of their own that stands outside the \<open>try\<close> block: when the validation
  refuses one of its keys the call throws there, \<open>Inl\<close>, and nothing has been written.
  Otherwise the result is \<open>Inr\<close> of the writes issued.
\<close>

definition handleBuzz ::
  "Ctx \<Rightarrow> string option \<Rightarrow> string option \<Rightarrow> int \<Rightarrow> error + dbwrite list" where
  "handleBuzz ctx inputPlayerId inputPlayerName now =
     (let buzzPlayerId = orStr inputPlayerId (playerId ctx);
          buzzPlayerName = orStr inputPlayerName (playerName ctx);
          winnerWrites =
            [WinnerWrite \<lparr>w_playerId = buzzPlayerId, w_playerName = buzzPlayerName,
                          timestamp = now, answer = None, timeLeft = None\<rparr>,
             BackgroundMusicWrite now]
      in case roomData ctx of
           None \<Rightarrow> Inr []
         | Some rd \<Rightarrow>
             if strVal (roomCode ctx) = [] then Inr []
             else if buzzPlayerId = [] then Inr []
             else if buzzPlayerName = [] then Inr []
             else if \<not> flag (buzzEnabled rd) then Inr []
             else if winnerInfo rd \<noteq> None then Inr []
             else if turnBasedOn (currentGameMode ctx) \<and> currentTurn rd \<noteq> None \<and>
                     advantagePhase (turnOf rd) \<and> t_playerId (turnOf rd) \<noteq> buzzPlayerId
               then Inr []
             else if expertOn (currentGameMode ctx) \<and> strVal (currentSong rd) \<noteq> [] then
               (if buzzPlayerId \<in> set (attemptedPlayers rd (strVal (currentSong rd)))
                then Inr []
                else
                  (case invalidKey (updatedAttempts rd buzzPlayerId) of
                     Some k \<Rightarrow> Inl (InvalidKey k)
                   | None \<Rightarrow>
                       Inr (SongAttemptsWrite (updatedAttempts rd buzzPlayerId) # winnerWrites)))
             else Inr winnerWrites)"

text \<open>What a call of \<open>handleBuzz\<close> leaves in the store.\<close>

definition buzzWrites :: "Ctx \<Rightarrow> string option \<Rightarrow> string option \<Rightarrow> int \<Rightarrow> dbwrite list" where
  "buzzWrites ctx inputPlayerId inputPlayerName now =
     issued (handleBuzz ctx inputPlayerId inputPlayerName now)"

text \<open>Lines 958--986.\<close>

definition enableBuzz :: "Ctx \<Rightarrow> int \<Rightarrow> dbwrite list" where
  "enableBuzz ctx now =
     (if strVal (roomCode ctx) = [] then [] else if \<not> isHost ctx then []
      else [BuzzEnabledWrite True now])"

definition disableBuzz :: "Ctx \<Rightarrow> int \<Rightarrow> dbwrite list" where
  "disableBuzz ctx now =
     (if strVal (roomCode ctx) = [] then [] else if \<not> isHost ctx then []
      else [BuzzEnabledWrite False now])"

text \<open>
  Lines 284--294: the listeners of the window events \<open>enableBuzzForSong\<close> and
  \<open>disableBuzzForSong\<close>, which \<open>dispatchEvent\<close> runs synchronously.
\<close>

definition handleEnableBuzzForSong :: "Ctx \<Rightarrow> int \<Rightarrow> dbwrite list" where
  "handleEnableBuzzForSong ctx now =
     (if isHost ctx \<and> strVal (roomCode ctx) \<noteq> [] then enableBuzz ctx now else [])"

definition handleDisableBuzzForSong :: "Ctx \<Rightarrow> int \<Rightarrow> dbwrite list" where
  "handleDisableBuzzForSong ctx now =
     (if isHost ctx \<and> strVal (roomCode ctx) \<noteq> [] then disableBuzz ctx now else [])"

text \<open>
  Lines 511--535. The block that resets the attempts tests the mode's type and the
  current song only.
\<close>

definition handleResetBuzz :: "Ctx \<Rightarrow> effect list" where
  "handleResetBuzz ctx =
     (if strVal (roomCode ctx) = [] then [] else if \<not> isHost ctx then []
      else [Service ResetBuzz, Service UpdateBuzzActivity] @
        (case currentGameMode ctx of
           None \<Rightarrow> []
         | Some g \<Rightarrow>
             (case roomData ctx of
                None \<Rightarrow> []
              | Some rd \<Rightarrow>
                  if modeType g = expert \<and> strVal (currentSong rd) \<noteq> [] then
                    [Update (SongAttemptsWrite
                       (AList.delete (strVal (currentSong rd)) (attemptsOf rd)))]
                  else [])))"

text \<open>\<open>currentGameMode?.settings?.pointsCorrect\<close> and its siblings.\<close>

definition modeSetting :: "(GameModeSettings \<Rightarrow> 'a option) \<Rightarrow> GameMode option \<Rightarrow> 'a option" where
  "modeSetting f m = (case m of None \<Rightarrow> None | Some g \<Rightarrow> f (settings g))"

text \<open>Lines 538--574.\<close>

definition awardCorrectAnswer :: "Ctx \<Rightarrow> int \<Rightarrow> effect list" where
  "awardCorrectAnswer ctx now =
     (if strVal (roomCode ctx) = [] then [] else if \<not> isHost ctx then []
      else case roomData ctx of
             None \<Rightarrow> []
           | Some rd \<Rightarrow>
               (case winnerInfo rd of
                  None \<Rightarrow> []
                | Some w \<Rightarrow>
                    (case map_of (players rd) (w_playerId w) of
                       None \<Rightarrow> []
                     | Some currentPlayer \<Rightarrow>
                         (let basePoints = numOr (modeSetting pointsCorrect (currentGameMode ctx)) 10;
                              currentScore = numOr (points currentPlayer) 0;
                              streak = numOr (currentStreak currentPlayer) 0 + 1;
                              best = max streak (numOr (bestStreak currentPlayer) 0)
                          in [Update (PlayerWrite (w_playerId w)
                                \<lparr>pp_points = Some (currentScore + basePoints),
                                 pp_currentStreak = Some streak,
                                 pp_bestStreak = Some best,
                                 pp_correctAnswers =
                                   Some (numOr (correctAnswers currentPlayer) 0 + 1),
                                 pp_wrongAnswers = None,
                                 pp_lastAnswerTime = Some now\<rparr>),
                              Service RejectPlayerAnswer]
                             @ map Update (disableBuzz ctx now)))))"

text \<open>Lines 576--610.\<close>

definition awardWrongAnswer :: "Ctx \<Rightarrow> int \<Rightarrow> effect list" where
  "awardWrongAnswer ctx now =
     (if strVal (roomCode ctx) = [] then [] else if \<not> isHost ctx then []
      else case roomData ctx of
             None \<Rightarrow> []
           | Some rd \<Rightarrow>
               (case winnerInfo rd of
                  None \<Rightarrow> []
                | Some w \<Rightarrow>
                    (case map_of (players rd) (w_playerId w) of
                       None \<Rightarrow> []
                     | Some currentPlayer \<Rightarrow>
                         (let penaltyPoints = numOr (modeSetting pointsWrong (currentGameMode ctx)) 5;
                              currentScore = numOr (points currentPlayer) 0;
                              newScore = max 0 (currentScore - penaltyPoints)
                          in [Update (PlayerWrite (w_playerId w)
                                \<lparr>pp_points = Some newScore,
                                 pp_currentStreak = Some 0,
                                 pp_bestStreak = None,
                                 pp_correctAnswers = None,
                                 pp_wrongAnswers =
                                   Some (numOr (wrongAnswers currentPlayer) 0 + 1),
                                 pp_lastAnswerTime = Some now\<rparr>),
                              Service RejectPlayerAnswer]
                             @ map Update (disableBuzz ctx now)))))"

text \<open>Lines 612--648.\<close>

definition awardSuperAnswer :: "Ctx \<Rightarrow> int \<Rightarrow> effect list" where
  "awardSuperAnswer ctx now =
     (if strVal (roomCode ctx) = [] then [] else if \<not> isHost ctx then []
      else case roomData ctx of
             None \<Rightarrow> []
           | Some rd \<Rightarrow>
               (case winnerInfo rd of
                  None \<Rightarrow> []
                | Some w \<Rightarrow>
                    (case map_of (players rd) (w_playerId w) of
                       None \<Rightarrow> []
                     | Some currentPlayer \<Rightarrow>
                         (let superPoints = 20;
                              currentScore = numOr (points currentPlayer) 0;
                              streak = numOr (currentStreak currentPlayer) 0 + 1;
                              best = max streak (numOr (bestStreak currentPlayer) 0)
                          in [Update (PlayerWrite (w_playerId w)
                                \<lparr>pp_points = Some (currentScore + superPoints),
                                 pp_currentStreak = Some streak,
                                 pp_bestStreak = Some best,
                                 pp_correctAnswers =
                                   Some (numOr (correctAnswers currentPlayer) 0 + 1),
                                 pp_wrongAnswers = None,
                                 pp_lastAnswerTime = Some now\<rparr>),
                              Service RejectPlayerAnswer]
                             @ map Update (disableBuzz ctx now)))))"

text \<open>
  Lines 650--702. \<open>amount\<close> is the argument as passed: an omitted argument takes the
  parameter's default.
\<close>

definition awardPoints :: "Ctx \<Rightarrow> int option \<Rightarrow> int \<Rightarrow> effect list" where
  "awardPoints ctx amount now =
     (if strVal (roomCode ctx) = [] then [] else if \<not> isHost ctx then []
      else case roomData ctx of
             None \<Rightarrow> []
           | Some rd \<Rightarrow>
               (case winnerInfo rd of
                  None \<Rightarrow> []
                | Some w \<Rightarrow>
                    Service (AssignPoints (w_playerId w) (case amount of None \<Rightarrow> 10 | Some a \<Rightarrow> a))
                    # map Update (disableBuzz ctx now)))"

definition subtractPlayerPoints :: "Ctx \<Rightarrow> int option \<Rightarrow> int \<Rightarrow> effect list" where
  "subtractPlayerPoints ctx amount now =
     (if strVal (roomCode ctx) = [] then [] else if \<not> isHost ctx then []
      else case roomData ctx of
             None \<Rightarrow> []
           | Some rd \<Rightarrow>
               (case winnerInfo rd of
                  None \<Rightarrow> []
                | Some w \<Rightarrow>
                    Service (SubtractPoints (w_playerId w) (case amount of None \<Rightarrow> 5 | Some a \<Rightarrow> a))
                    # map Update (disableBuzz ctx now)))"

definition rejectAnswer :: "Ctx \<Rightarrow> int \<Rightarrow> effect list" where
  "rejectAnswer ctx now =
     (if strVal (roomCode ctx) = [] then [] else if \<not> isHost ctx then []
      else case roomData ctx of
             None \<Rightarrow> []
           | Some rd \<Rightarrow>
               (case winnerInfo rd of
                  None \<Rightarrow> []
                | Some w \<Rightarrow> Service RejectPlayerAnswer # map Update (disableBuzz ctx now)))"

text \<open>
  Lines 745--787. The turn order is built from \<open>Object.keys(roomData.players)\<close>, every
  player of the snapshot. With no player at all \<open>playerIds[0]\<close> is undefined, the update
  throws on it and nothing is written.
\<close>

definition setGameMode :: "Ctx \<Rightarrow> GameMode \<Rightarrow> int \<Rightarrow> dbwrite list" where
  "setGameMode ctx mode now =
     (if strVal (roomCode ctx) = [] then [] else if strVal (playerId ctx) = [] then []
      else if \<not> isHost ctx then []
      else
        (let ps = (case roomData ctx of None \<Rightarrow> [] | Some rd \<Rightarrow> players rd);
             playerIds = map fst ps;
             nameOf = (\<lambda>pid. case map_of ps pid of
                                None \<Rightarrow> ''Unknown''
                              | Some p \<Rightarrow> if p_name p = [] then ''Unknown'' else p_name p);
             teamTurn = (if modeType mode = teams then Some TeamA else None)
         in if modeType mode = turnBased then
              (case playerIds of
                 [] \<Rightarrow> []
               | first # rest \<Rightarrow>
                   [GameModeWrite mode teamTurn
                      (Some \<lparr>t_playerId = first, t_playerName = nameOf first, turnNumber = 1,
                             startTime = Some now, advantagePhase = True,
                             turnOrder = Some (map (\<lambda>pid. (pid, nameOf pid)) playerIds),
                             nextPlayerIndex = Some 1\<rparr>)])
            else [GameModeWrite mode teamTurn None]))"

text \<open>
  Lines 1017--1068. A timed write is the pair of the instant at which it is issued and
  the write; the clock advances by the \<open>setTimeout\<close> delays only. The loop
  \<open>for (i = 3; i > 0; i--)\<close> is \<open>countdownLoop 3\<close>. The two window events the
  function dispatches reach the listeners above.
\<close>

fun countdownLoop :: "nat \<Rightarrow> int \<Rightarrow> (int \<times> dbwrite) list" where
  "countdownLoop 0 t = []"
| "countdownLoop (Suc i) t =
     (t, CountdownWrite True (int (Suc i)) (Assign t)) # countdownLoop i (t + 1000)"

definition issuedAt :: "int \<Rightarrow> dbwrite list \<Rightarrow> (int \<times> dbwrite) list" where
  "issuedAt t ws = map (\<lambda>w. (t, w)) ws"

definition startCountdown :: "Ctx \<Rightarrow> string \<Rightarrow> int \<Rightarrow> (int \<times> dbwrite) list" where
  "startCountdown ctx songName now =
     (if strVal (roomCode ctx) = [] then [] else if \<not> isHost ctx then []
      else issuedAt now (handleDisableBuzzForSong ctx now)
         @ [(now, CountdownWrite True 3 (Assign now))]
         @ countdownLoop 3 now
         @ [(now + 3000, CountdownWrite False 0 Unchanged)]
         @ issuedAt (now + 3000) (handleEnableBuzzForSong ctx (now + 3000)))"

text \<open>Lines 1071--1088.\<close>

definition stopCountdown :: "Ctx \<Rightarrow> dbwrite list" where
  "stopCountdown ctx =
     (if strVal (roomCode ctx) = [] then [] else if \<not> isHost ctx then []
      else [CountdownWrite False 0 Remove])"

text \<open>Lines 1194--1203, in seconds.\<close>

definition turnAdvantageTimeLeft :: "Ctx \<Rightarrow> int \<Rightarrow> real" where
  "turnAdvantageTimeLeft ctx now =
     (case roomData ctx of
        None \<Rightarrow> 0
      | Some rd \<Rightarrow>
          (case currentTurn rd of
             None \<Rightarrow> 0
           | Some ct \<Rightarrow>
               (let advantageSeconds = numOr (modeSetting turnAdvantageSeconds (currentGameMode ctx)) 0
                in if advantageSeconds = 0 then 0
                   else max 0 (real_of_int advantageSeconds
                               - real_of_int (now - numOr (startTime ct) 0) / 1000))))"

section \<open>The buzz button (src/components/BuzzButton.tsx)\<close>

text \<open>\<open>isBuzzEnabled\<close> and \<open>isCurrentPlayerTurn\<close> of the context (lines 1239 and 1189--1192).\<close>

definition isBuzzEnabled :: "Ctx \<Rightarrow> bool" where
  "isBuzzEnabled ctx = (case roomData ctx of None \<Rightarrow> False | Some rd \<Rightarrow> flag (buzzEnabled rd))"

definition isCurrentPlayerTurn :: "Ctx \<Rightarrow> bool" where
  "isCurrentPlayerTurn ctx =
     (case roomData ctx of
        None \<Rightarrow> False
      | Some rd \<Rightarrow>
          (case currentTurn rd of None \<Rightarrow> False | Some ct \<Rightarrow> Some (t_playerId ct) = playerId ctx))"

definition modeIs :: "Ctx \<Rightarrow> ModeType \<Rightarrow> bool" where
  "modeIs ctx ty = (case currentGameMode ctx of None \<Rightarrow> False | Some g \<Rightarrow> modeType g = ty)"

text \<open>Lines 46--59 of the button, rendered at instant \<open>now\<close>.\<close>

definition hasAlreadyAttempted :: "Ctx \<Rightarrow> bool" where
  "hasAlreadyAttempted ctx =
     (case roomData ctx of
        None \<Rightarrow> False
      | Some rd \<Rightarrow>
          expertOn (currentGameMode ctx) \<and> strVal (currentSong rd) \<noteq> [] \<and>
          strVal (playerId ctx) \<noteq> [] \<and>
          strVal (playerId ctx) \<in> set (attemptedPlayers rd (strVal (currentSong rd))))"

definition isAdvantagePhase :: "Ctx \<Rightarrow> int \<Rightarrow> bool" where
  "isAdvantagePhase ctx now =
     (modeIs ctx turnBased \<and>
      (case roomData ctx of
         None \<Rightarrow> False
       | Some rd \<Rightarrow> (case currentTurn rd of None \<Rightarrow> False | Some ct \<Rightarrow> advantagePhase ct)) \<and>
      0 < turnAdvantageTimeLeft ctx now)"

text \<open>
  Lines 241--247, the \<open>disabled\<close> attribute of the button, and lines 61--79, its click
  handler, which catches what \<open>handleBuzz\<close> throws. \<open>disabled\<close> is the property the
  parent component passes, \<open>isBuzzing\<close> the button's own state.
\<close>

definition buzzButtonDisabled :: "Ctx \<Rightarrow> bool \<Rightarrow> bool \<Rightarrow> int \<Rightarrow> bool" where
  "buzzButtonDisabled ctx disabled isBuzzing now =
     (disabled \<or> isBuzzing \<or> (\<not> isBuzzEnabled ctx \<and> \<not> modeIs ctx turnBased) \<or>
      hasAlreadyAttempted ctx \<or>
      (modeIs ctx turnBased \<and> isAdvantagePhase ctx now \<and> \<not> isCurrentPlayerTurn ctx))"

definition onBuzz :: "Ctx \<Rightarrow> bool \<Rightarrow> bool \<Rightarrow> int \<Rightarrow> dbwrite list" where
  "onBuzz ctx disabled isBuzzing now =
     (if disabled then [] else if isBuzzing then [] else if \<not> isBuzzEnabled ctx then []
      else if hasAlreadyAttempted ctx then [] else buzzWrites ctx None None now)"

section \<open>The audio player (src/unnamed/part_003)\<close>

datatype Column = ColLeft | ColRight

text \<open>
  Lines 532--554: the file picker keeps the files whose name matches
  \<open>/\.(mp3|wav|ogg)$/i\<close>; only those can be played.
\<close>

definition ci :: "char \<Rightarrow> char \<Rightarrow> char \<Rightarrow> bool" where
  "ci c lower upper = (c = lower \<or> c = upper)"

definition audioFile :: "string \<Rightarrow> bool" where
  "audioFile name =
     (case rev name of
        c3 # c2 # c1 # dot # before \<Rightarrow>
          dot = CHR ''.'' \<and>
          ((ci c1 CHR ''m'' CHR ''M'' \<and> ci c2 CHR ''p'' CHR ''P'' \<and> c3 = CHR ''3'') \<or>
           (ci c1 CHR ''w'' CHR ''W'' \<and> ci c2 CHR ''a'' CHR ''A'' \<and> ci c3 CHR ''v'' CHR ''V'') \<or>
           (ci c1 CHR ''o'' CHR ''O'' \<and> ci c2 CHR ''g'' CHR ''G'' \<and> ci c3 CHR ''g'' CHR ''G''))
      | other \<Rightarrow> False)"

text \<open>
  Lines 218--304: what the \<open>play\<close> listener installed by \<open>executePlayAudio\<close> writes.
  Under turn-based mode it picks the player of the turn among the players that are not
  the host, and a timer of 15000 ms ends the advantage phase. A negative index reads
  \<open>undefined\<close> from the array and the listener throws before writing the turn.
\<close>

definition executePlayAudio :: "Ctx \<Rightarrow> string \<Rightarrow> Column \<Rightarrow> int \<Rightarrow> (int \<times> dbwrite) list" where
  "executePlayAudio ctx fileName column now =
     (if strVal (roomCode ctx) \<noteq> [] \<and> column = ColLeft then [(now, CurrentSongWrite fileName)]
      else [])
     @ (if column = ColRight then issuedAt now (handleDisableBuzzForSong ctx now)
        else if turnBasedOn (currentGameMode ctx) then
          issuedAt now (handleDisableBuzzForSong ctx now)
          @ (if strVal (roomCode ctx) = [] then []
             else
               (let ps = (case roomData ctx of None \<Rightarrow> [] | Some rd \<Rightarrow> players rd);
                    nonHostPlayers = filter (\<lambda>(pid, p). \<not> p_isHost p) ps;
                    lastTurn = (case roomData ctx of None \<Rightarrow> 0
                                | Some rd \<Rightarrow> (case currentTurn rd of None \<Rightarrow> 0
                                              | Some ct \<Rightarrow> numOr (Some (turnNumber ct)) 0))
                in if 0 < length nonHostPlayers then
                     (let currentTurnNumber = jsRem lastTurn (int (length nonHostPlayers))
                      in if currentTurnNumber < 0 then []
                         else
                           (let currentPlayer = nonHostPlayers ! nat currentTurnNumber
                            in [(now, TurnWrite (fst currentPlayer) (p_name (snd currentPlayer))
                                        (currentTurnNumber + 1) now True)]
                               @ issuedAt now (handleEnableBuzzForSong ctx now)
                               @ [(now + 15000, AdvantagePhaseWrite False)]))
                   else []))
        else if (case currentGameMode ctx of None \<Rightarrow> False | Some g \<Rightarrow> modeType g = easy)
                \<and> numOr (modeSetting buzzDelaySeconds (currentGameMode ctx)) 0 \<noteq> 0 then
          issuedAt now (handleDisableBuzzForSong ctx now)
          @ (let due = now + numOr (modeSetting buzzDelaySeconds (currentGameMode ctx)) 0 * 1000
             in issuedAt due (handleEnableBuzzForSong ctx due))
        else issuedAt now (handleEnableBuzzForSong ctx now))"

section \<open>Running writes against the store\<close>

text \<open>The store at instant \<open>t\<close>: the timed writes issued up to \<open>t\<close>, applied in order.\<close>

definition storeAt :: "(int \<times> dbwrite) list \<Rightarrow> int \<Rightarrow> Store \<Rightarrow> Store" where
  "storeAt tws t st = applyUpdates (map snd (filter (\<lambda>tw. fst tw \<le> t) tws)) st"

text \<open>A call of \<open>handleBuzz\<close> is accepted when it issues the winner write.\<close>

fun isWinnerWrite :: "dbwrite \<Rightarrow> bool" where
  "isWinnerWrite (WinnerWrite w) = True"
| "isWinnerWrite other = False"

definition buzzAccepted :: "dbwrite list \<Rightarrow> bool" where
  "buzzAccepted ws = (filter isWinnerWrite ws \<noteq> [])"

text \<open>A client whose snapshot is the current content of the store.\<close>

definition synced :: "Ctx \<Rightarrow> Store \<Rightarrow> Ctx" where
  "synced ctx st = ctx\<lparr>roomData := Some (room st)\<rparr>"

text \<open>
  Calls of \<open>handleBuzz\<close> one after the other, each client reading the store as the call
  before left it: the verdict of each call, and the store at the end.
\<close>

fun serialBuzz :: "(Ctx \<times> int) list \<Rightarrow> Store \<Rightarrow> bool list \<times> Store" where
  "serialBuzz [] st = ([], st)"
| "serialBuzz ((ctx, now) # cs) st =
     (let ws = buzzWrites (synced ctx st) None None now;
          r = serialBuzz cs (applyUpdates ws st)
      in (buzzAccepted ws # fst r, snd r))"

text \<open>
  Calls of \<open>handleBuzz\<close> by clients that all hold the snapshot taken before any of them
  wrote: the verdict of each call, and the store once every write has arrived, in the
  order of the calls.
\<close>

definition racingBuzz :: "(Ctx \<times> int) list \<Rightarrow> Store \<Rightarrow> bool list \<times> Store" where
  "racingBuzz cs st =
     (let wss = map (\<lambda>c. buzzWrites (synced (fst c) st) None None (snd c)) cs
      in (map buzzAccepted wss, applyUpdates (concat wss) st))"

text \<open>
  A caller whose own fields are set and whose mode adds no gate of its own: neither the
  turn-based advantage nor the expert one-attempt rule.
\<close>

definition plainCaller :: "Ctx \<times> int \<Rightarrow> bool" where
  "plainCaller c =
     (strVal (roomCode (fst c)) \<noteq> [] \<and> strVal (playerId (fst c)) \<noteq> [] \<and>
      strVal (playerName (fst c)) \<noteq> [] \<and> \<not> turnBasedOn (currentGameMode (fst c)) \<and>
      \<not> expertOn (currentGameMode (fst c)))"

text \<open>The winner record a caller writes when it calls \<open>handleBuzz\<close> with no argument.\<close>

definition winnerRecordOf :: "Ctx \<times> int \<Rightarrow> WinnerInfo" where
  "winnerRecordOf c =
     \<lparr>w_playerId = strVal (playerId (fst c)), w_playerName = strVal (playerName (fst c)),
      timestamp = snd c, answer = None, timeLeft = None\<rparr>"

text \<open>The store after the first \<open>k\<close> writes of a run.\<close>

definition afterWrites :: "nat \<Rightarrow> (int \<times> dbwrite) list \<Rightarrow> Store \<Rightarrow> Store" where
  "afterWrites k tws st = applyUpdates (map snd (take k tws)) st"

text \<open>The countdown writes of a run: instant, \<open>isActive\<close> and \<open>value\<close> of each.\<close>

fun countdownLog :: "(int \<times> dbwrite) list \<Rightarrow> (int \<times> bool \<times> int) list" where
  "countdownLog [] = []"
| "countdownLog ((t, CountdownWrite a v s) # tws) = (t, a, v) # countdownLog tws"
| "countdownLog (tw # tws) = countdownLog tws"

section \<open>Predefined game modes (lines 218--279) and sample rooms\<close>

text \<open>
  Three of the six entries of \<open>gameModes\<close>. The descriptions shown to the players are
  left out of the records.
\<close>

definition noSettings :: GameModeSettings where
  "noSettings =
     \<lparr>timeLimit = None, autoNext = None, teamsEnabled = None, pointsCorrect = None,
      pointsWrong = None, buzzDelaySeconds = None, oneAttemptPerSong = None,
      turnBasedEnabled = None, turnAdvantageSeconds = None\<rparr>"

definition classicMode :: GameMode where
  "classicMode =
     \<lparr>modeType = classic, modeName = ''Classica'', description = [],
      settings = noSettings\<lparr>pointsCorrect := Some 10, pointsWrong := Some 5\<rparr>\<rparr>"

definition expertMode :: GameMode where
  "expertMode =
     \<lparr>modeType = expert, modeName = ''Esperto'', description = [],
      settings = noSettings\<lparr>pointsCorrect := Some 10, pointsWrong := Some 5,
                   oneAttemptPerSong := Some True\<rparr>\<rparr>"

definition turnBasedMode :: GameMode where
  "turnBasedMode =
     \<lparr>modeType = turnBased, modeName = ''A Turni'', description = [],
      settings = noSettings\<lparr>turnBasedEnabled := Some True, turnAdvantageSeconds := Some 10,
                   pointsCorrect := Some 10, pointsWrong := Some 5\<rparr>\<rparr>"

text \<open>
  A room with its host and three players, buzz enabled and no winner, and the clients
  of its members.
\<close>

definition member :: "string \<Rightarrow> bool \<Rightarrow> Player" where
  "member nm host = blankPlayer\<lparr>p_name := nm, p_isHost := host\<rparr>"

definition room0 :: RoomData where
  "room0 =
     \<lparr>winnerInfo = None,
      players = [(''h'', member ''Host'' True), (''a'', member ''Ann'' False),
                 (''b'', member ''Bob'' False), (''c'', member ''Cy'' False)],
      gameMode = None, currentSong = None, buzzEnabled = Some True, songAttempts = None,
      currentTurn = None\<rparr>"

definition store0 :: Store where
  "store0 =
     \<lparr>room = room0, countdown = None, backgroundMusicControl = None,
      lastBuzzActivity = None, currentTeamTurn = None\<rparr>"

definition client :: "string \<Rightarrow> string \<Rightarrow> GameMode \<Rightarrow> Ctx" where
  "client pid nm m =
     \<lparr>roomCode = Some ''R1'', playerName = Some nm, playerId = Some pid,
      roomData = Some room0, currentGameMode = Some m\<rparr>"

text \<open>The same room under expert mode: song \<open>s2\<close> plays, Ann tried \<open>s1\<close>, Bob tried \<open>s2\<close>.\<close>

definition expertRoom :: RoomData where
  "expertRoom =
     room0\<lparr>currentSong := Some ''s2'',
            songAttempts := Some [(''s1'', [''a'']), (''s2'', [''b''])]\<rparr>"

definition expertStore :: Store where
  "expertStore = store0\<lparr>room := expertRoom\<rparr>"

text \<open>The services of \<open>services/firebase\<close> taken as doing nothing, for the sample runs.\<close>

definition idleService :: "service \<Rightarrow> Store \<Rightarrow> Store" where
  "idleService s st = st"

text \<open>The sample room during Ann's advantage phase of a turn-based game.\<close>

definition turnRoom :: RoomData where
  "turnRoom =
     room0\<lparr>currentTurn := Some \<lparr>t_playerId = ''a'', t_playerName = ''Ann'', turnNumber = 1,
              startTime = Some 0, advantagePhase = True, turnOrder = None,
              nextPlayerIndex = None\<rparr>\<rparr>"

text \<open>The sample room after Ann has won the buzz.\<close>

definition annWins :: WinnerInfo where
  "annWins =
     \<lparr>w_playerId = ''a'', w_playerName = ''Ann'', timestamp = 1, answer = None,
      timeLeft = None\<rparr>"

definition wonStore :: Store where
  "wonStore = store0\<lparr>room := room0\<lparr>winnerInfo := Some annWins, buzzEnabled := Some False\<rparr>\<rparr>"

text \<open>A mode whose wrong answers are meant to cost nothing, and a room where Ann has 7 points.\<close>

definition noPenaltyMode :: GameMode where
  "noPenaltyMode = classicMode\<lparr>settings := (settings classicMode)\<lparr>pointsWrong := Some 0\<rparr>\<rparr>"

definition sevenRoom :: RoomData where
  "sevenRoom =
     \<lparr>winnerInfo = Some annWins,
      players = [(''h'', member ''Host'' True),
                 (''a'', (member ''Ann'' False)\<lparr>points := Some 7\<rparr>)],
      gameMode = Some noPenaltyMode, currentSong = None, buzzEnabled = Some False,
      songAttempts = None, currentTurn = None\<rparr>"

text \<open>The sample room with a countdown at 2 while buzz is enabled.\<close>

definition tickingStore :: Store where
  "tickingStore =
     store0\<lparr>countdown := Some \<lparr>isActive = True, cd_value = 2, cd_startTime = Some 1000\<rparr>\<rparr>"

text \<open>
  The host's player starts a song at instant \<open>now\<close>, on a snapshot of the store: the
  store once the writes issued at that instant have arrived.
\<close>

definition nextSong :: "Ctx \<Rightarrow> int \<Rightarrow> Store \<Rightarrow> Store" where
  "nextSong host now st =
     storeAt (executePlayAudio (synced host st) ''song.mp3'' ColLeft now) now st"

text \<open>
  The sample room under expert mode once the host's player has started \<open>song.mp3\<close>.
\<close>

definition playingStore :: Store where
  "playingStore =
     storeAt (executePlayAudio (client ''h'' ''Host'' expertMode) ''song.mp3'' ColLeft 0) 0 store0"

section \<open>Auxiliary facts\<close>

lemmas js_defs = strVal_def orStr_def numOr_def flag_def modeSetting_def

lemma applyUpdates_Nil: "applyUpdates [] st = st"
  by (simp add: applyUpdates_def)

lemma applyUpdates_Cons: "applyUpdates (w # ws) st = applyUpdates ws (applyUpdate w st)"
  by (simp add: applyUpdates_def)

lemma applyEffects_Nil: "applyEffects svc [] st = st"
  by (simp add: applyEffects_def)

lemma applyEffects_Cons:
  "applyEffects svc (e # es) st = applyEffects svc es (applyEffect svc e st)"
  by (simp add: applyEffects_def)

lemma storeAt_Nil: "storeAt [] t st = st"
  by (simp add: storeAt_def applyUpdates_Nil)

lemma storeAt_Cons:
  "storeAt (tw # tws) t st =
     (if fst tw \<le> t then storeAt tws t (applyUpdate (snd tw) st) else storeAt tws t st)"
  by (simp add: storeAt_def applyUpdates_Cons)

lemma synced_simps:
  "roomCode (synced ctx st) = roomCode ctx"
  "playerId (synced ctx st) = playerId ctx"
  "playerName (synced ctx st) = playerName ctx"
  "currentGameMode (synced ctx st) = currentGameMode ctx"
  "roomData (synced ctx st) = Some (room st)"
  by (simp_all add: synced_def)

lemma client_simps:
  "roomCode (client pid nm m) = Some ''R1''"
  "playerId (client pid nm m) = Some pid"
  "playerName (client pid nm m) = Some nm"
  "currentGameMode (client pid nm m) = Some m"
  "roomData (client pid nm m) = Some room0"
  by (simp_all add: client_def)

lemma isHost_synced:
  "isHost (synced ctx st) =
     (strVal (playerId ctx) \<noteq> [] \<and>
      (case map_of (players (room st)) (strVal (playerId ctx)) of
         None \<Rightarrow> False | Some p \<Rightarrow> p_isHost p))"
  by (simp add: isHost_def synced_simps)

lemma host_is_host: "isHost (client ''h'' ''Host'' m)"
  by (simp add: isHost_def client_simps room0_def member_def js_defs)

lemma host_has_room: "strVal (roomCode (client pid nm m)) \<noteq> []"
  by (simp add: client_simps js_defs)

lemma disableBuzz_host:
  "strVal (roomCode ctx) \<noteq> [] \<Longrightarrow> isHost ctx \<Longrightarrow>
     disableBuzz ctx now = [BuzzEnabledWrite False now]"
  by (simp add: disableBuzz_def)

lemma expert_not_turnBased: "expertOn m \<Longrightarrow> \<not> turnBasedOn m"
  by (cases m) (auto simp: expertOn_def turnBasedOn_def)

subsection \<open>The verdict of \<open>handleBuzz\<close>\<close>

lemma buzzAccepted_simps:
  "buzzAccepted [] = False"
  "buzzAccepted (WinnerWrite w # ws) = True"
  "buzzAccepted (SongAttemptsWrite m # ws) = buzzAccepted ws"
  by (simp_all add: buzzAccepted_def)

lemma issued_simps: "issued (Inl e) = []" "issued (Inr ws) = ws"
  by (simp_all add: issued_def)

lemma buzzWrites_accepts:
  "buzzAccepted (buzzWrites ctx i n now) \<longleftrightarrow>
     (\<exists>rd. roomData ctx = Some rd \<and> strVal (roomCode ctx) \<noteq> []
        \<and> orStr i (playerId ctx) \<noteq> [] \<and> orStr n (playerName ctx) \<noteq> []
        \<and> flag (buzzEnabled rd) \<and> winnerInfo rd = None
        \<and> \<not> (turnBasedOn (currentGameMode ctx) \<and> currentTurn rd \<noteq> None
              \<and> advantagePhase (turnOf rd) \<and> t_playerId (turnOf rd) \<noteq> orStr i (playerId ctx))
        \<and> \<not> (expertOn (currentGameMode ctx) \<and> strVal (currentSong rd) \<noteq> []
              \<and> (orStr i (playerId ctx) \<in> set (attemptedPlayers rd (strVal (currentSong rd)))
                   \<or> invalidKey (updatedAttempts rd (orStr i (playerId ctx))) \<noteq> None)))"
  by (cases "roomData ctx")
     (auto simp: buzzWrites_def handleBuzz_def Let_def issued_simps buzzAccepted_simps
        split: option.splits)

lemma buzzWrites_shape:
  "buzzWrites ctx i n now = []
   \<or> buzzWrites ctx i n now =
        [WinnerWrite \<lparr>w_playerId = orStr i (playerId ctx),
           w_playerName = orStr n (playerName ctx), timestamp = now, answer = None,
           timeLeft = None\<rparr>, BackgroundMusicWrite now]
   \<or> (\<exists>m. buzzWrites ctx i n now =
        [SongAttemptsWrite m, WinnerWrite \<lparr>w_playerId = orStr i (playerId ctx),
           w_playerName = orStr n (playerName ctx), timestamp = now, answer = None,
           timeLeft = None\<rparr>, BackgroundMusicWrite now])"
  by (cases "roomData ctx")
     (simp_all add: buzzWrites_def handleBuzz_def Let_def issued_simps split: option.splits)

lemma buzzWrites_rejects:
  "\<not> buzzAccepted (buzzWrites ctx i n now) \<Longrightarrow> buzzWrites ctx i n now = []"
  using buzzWrites_shape [of ctx i n now] by (auto simp: buzzAccepted_simps)


lemma buzzWrites_winner_stored:
  "buzzAccepted (buzzWrites ctx i n now) \<Longrightarrow>
     winnerInfo (room (applyUpdates (buzzWrites ctx i n now) st))
       = Some \<lparr>w_playerId = orStr i (playerId ctx),
           w_playerName = orStr n (playerName ctx), timestamp = now, answer = None,
           timeLeft = None\<rparr>
     \<and> buzzEnabled (room (applyUpdates (buzzWrites ctx i n now) st)) = Some False"
  using buzzWrites_shape [of ctx i n now]
  by (auto simp: buzzAccepted_simps applyUpdates_def)

lemma handleBuzz_disabled:
  "roomData ctx = Some rd \<Longrightarrow> buzzEnabled rd = Some False \<Longrightarrow>
     handleBuzz ctx i n now = Inr []"
  by (simp add: handleBuzz_def Let_def flag_def)

lemma handleBuzz_winner_present:
  "roomData ctx = Some rd \<Longrightarrow> winnerInfo rd \<noteq> None \<Longrightarrow> handleBuzz ctx i n now = Inr []"
  by (simp add: handleBuzz_def Let_def)

subsection \<open>Names of audio files as keys\<close>

lemma audioFile_has_dot: "audioFile name \<Longrightarrow> CHR ''.'' \<in> set name"
proof -
  assume a: "audioFile name"
  then obtain c3 c2 c1 dot before where r: "rev name = c3 # c2 # c1 # dot # before"
    by (auto simp: audioFile_def split: list.splits)
  with a have "dot = CHR ''.''"
    by (simp add: audioFile_def)
  with r have "CHR ''.'' \<in> set (rev name)"
    by simp
  then show ?thesis by simp
qed

lemma dotted_key_invalid: "CHR ''.'' \<in> set k \<Longrightarrow> \<not> validKey k"
proof
  assume d: "CHR ''.'' \<in> set k" and v: "validKey k"
  have "forbiddenChar CHR ''.''"
    by (simp add: forbiddenChar_def)
  with d have "CHR ''.'' \<in> set (filter forbiddenChar k)"
    by simp
  with v show False
    by (simp add: validKey_def)
qed

lemma invalidKey_of_update:
  assumes "\<not> validKey song"
  shows "invalidKey (AList.update song ps m) \<noteq> None"
proof -
  have "song \<in> set (map fst (AList.update song ps m))"
    by (simp add: AList.update_keys)
  with assms show ?thesis
    by (auto simp: invalidKey_def find_None_iff)
qed

subsection \<open>Calls in sequence and calls in a race\<close>

lemma serialBuzz_after_winner:
  "winnerInfo (room st) \<noteq> None \<Longrightarrow> serialBuzz cs st = (replicate (length cs) False, st)"
proof (induction cs)
  case Nil
  then show ?case by simp
next
  case (Cons c cs)
  obtain ctx now where c: "c = (ctx, now)" by (cases c)
  have "buzzWrites (synced ctx st) None None now = []"
    using Cons.prems handleBuzz_winner_present [of "synced ctx st" "room st" None None now]
    by (simp add: buzzWrites_def issued_simps synced_simps)
  then show ?case
    using Cons c by (simp add: Let_def applyUpdates_Nil buzzAccepted_simps)
qed

lemma serialBuzz_at_most_one:
  "length (filter (\<lambda>b. b) (fst (serialBuzz cs st))) \<le> 1"
proof (induction cs arbitrary: st)
  case Nil
  then show ?case by simp
next
  case (Cons c cs)
  obtain ctx now where c: "c = (ctx, now)" by (cases c)
  let ?ws = "buzzWrites (synced ctx st) None None now"
  show ?case
  proof (cases "buzzAccepted ?ws")
    case True
    then have "winnerInfo (room (applyUpdates ?ws st)) \<noteq> None"
      using buzzWrites_winner_stored [of "synced ctx st" None None now st] by simp
    then have "fst (serialBuzz cs (applyUpdates ?ws st)) = replicate (length cs) False"
      by (simp add: serialBuzz_after_winner)
    then show ?thesis using True c by (simp add: Let_def)
  next
    case False
    then have "?ws = []" by (rule buzzWrites_rejects)
    then show ?thesis using False c Cons.IH [of st] by (simp add: Let_def applyUpdates_Nil)
  qed
qed

lemma plainCaller_writes:
  assumes "plainCaller c" and "flag (buzzEnabled (room st))"
    and "winnerInfo (room st) = None"
  shows "buzzWrites (synced (fst c) st) None None (snd c) =
     [WinnerWrite (winnerRecordOf c), BackgroundMusicWrite (snd c)]"
  using assms
  by (simp add: buzzWrites_def handleBuzz_def Let_def issued_simps plainCaller_def
      winnerRecordOf_def synced_simps orStr_def strVal_def)

lemma plainCaller_accepted:
  assumes "plainCaller c" and "flag (buzzEnabled (room st))"
    and "winnerInfo (room st) = None"
  shows "buzzAccepted (buzzWrites (synced (fst c) st) None None (snd c))"
  by (simp add: plainCaller_writes [OF assms] buzzAccepted_simps)

lemma winner_after_plain_write:
  "winnerInfo (room (applyUpdates [WinnerWrite w, BackgroundMusicWrite t] st)) = Some w"
  by (simp add: applyUpdates_Cons applyUpdates_Nil)

lemma serialBuzz_first_wins:
  assumes "plainCaller c" and "flag (buzzEnabled (room st))" and "winnerInfo (room st) = None"
  shows "fst (serialBuzz (c # cs) st) = True # replicate (length cs) False"
    and "winnerInfo (room (snd (serialBuzz (c # cs) st))) = Some (winnerRecordOf c)"
proof -
  obtain ctx now where c: "c = (ctx, now)" by (cases c)
  let ?ws = "buzzWrites (synced ctx st) None None now"
  have ws: "?ws = [WinnerWrite (winnerRecordOf c), BackgroundMusicWrite now]"
    using plainCaller_writes [OF assms] c by simp
  have won: "winnerInfo (room (applyUpdates ?ws st)) = Some (winnerRecordOf c)"
    unfolding ws by (rule winner_after_plain_write)
  then have rest: "serialBuzz cs (applyUpdates ?ws st)
      = (replicate (length cs) False, applyUpdates ?ws st)"
    by (simp add: serialBuzz_after_winner)
  show "fst (serialBuzz (c # cs) st) = True # replicate (length cs) False"
    using rest ws c by (simp add: Let_def buzzAccepted_simps)
  show "winnerInfo (room (snd (serialBuzz (c # cs) st))) = Some (winnerRecordOf c)"
    using rest won c by (simp add: Let_def)
qed

lemma racing_writes:
  assumes "list_all plainCaller cs" and "flag (buzzEnabled (room st))"
    and "winnerInfo (room st) = None"
  shows "map (\<lambda>c. buzzWrites (synced (fst c) st) None None (snd c)) cs
      = map (\<lambda>c. [WinnerWrite (winnerRecordOf c), BackgroundMusicWrite (snd c)]) cs"
  using assms(1)
proof (induction cs)
  case Nil
  then show ?case by simp
next
  case (Cons c cs)
  then show ?case
    using plainCaller_writes [OF _ assms(2,3), of c] by simp
qed

lemma racingBuzz_all_win:
  assumes "list_all plainCaller cs" and "flag (buzzEnabled (room st))"
    and "winnerInfo (room st) = None"
  shows "fst (racingBuzz cs st) = replicate (length cs) True"
  by (simp add: racingBuzz_def Let_def racing_writes [OF assms] buzzAccepted_simps
      comp_def map_replicate_const)

lemma last_write_stays:
  "cs \<noteq> [] \<Longrightarrow>
     winnerInfo (room (applyUpdates
        (concat (map (\<lambda>c. [WinnerWrite (winnerRecordOf c), BackgroundMusicWrite (snd c)]) cs)) s))
       = Some (winnerRecordOf (last cs))"
proof (induction cs arbitrary: s)
  case Nil
  then show ?case by simp
next
  case (Cons c cs)
  show ?case
  proof (cases "cs = []")
    case True
    then show ?thesis by (simp add: applyUpdates_Cons applyUpdates_Nil)
  next
    case False
    then show ?thesis
      using Cons.IH [OF False] by (simp add: applyUpdates_Cons)
  qed
qed

lemma racingBuzz_last_wins:
  assumes "cs \<noteq> []" and "list_all plainCaller cs" and "flag (buzzEnabled (room st))"
    and "winnerInfo (room st) = None"
  shows "winnerInfo (room (snd (racingBuzz cs st))) = Some (winnerRecordOf (last cs))"
  by (simp add: racingBuzz_def Let_def racing_writes [OF assms(2,3,4)]
      last_write_stays [OF assms(1)])

subsection \<open>The writes of the two verdicts\<close>

lemma award_writes:
  assumes "strVal (roomCode ctx) \<noteq> []" and "isHost ctx" and "roomData ctx = Some rd"
    and "winnerInfo rd = Some w" and "map_of (players rd) (w_playerId w) = Some p"
  shows "awardCorrectAnswer ctx now =
           [Update (PlayerWrite (w_playerId w)
              \<lparr>pp_points = Some (numOr (points p) 0
                   + numOr (modeSetting pointsCorrect (currentGameMode ctx)) 10),
               pp_currentStreak = Some (numOr (currentStreak p) 0 + 1),
               pp_bestStreak = Some (max (numOr (currentStreak p) 0 + 1) (numOr (bestStreak p) 0)),
               pp_correctAnswers = Some (numOr (correctAnswers p) 0 + 1),
               pp_wrongAnswers = None,
               pp_lastAnswerTime = Some now\<rparr>),
            Service RejectPlayerAnswer, Update (BuzzEnabledWrite False now)]"
    and "awardWrongAnswer ctx now =
           [Update (PlayerWrite (w_playerId w)
              \<lparr>pp_points = Some (max 0 (numOr (points p) 0
                   - numOr (modeSetting pointsWrong (currentGameMode ctx)) 5)),
               pp_currentStreak = Some 0,
               pp_bestStreak = None,
               pp_correctAnswers = None,
               pp_wrongAnswers = Some (numOr (wrongAnswers p) 0 + 1),
               pp_lastAnswerTime = Some now\<rparr>),
            Service RejectPlayerAnswer, Update (BuzzEnabledWrite False now)]"
  using assms
  by (simp_all add: awardCorrectAnswer_def awardWrongAnswer_def Let_def disableBuzz_host)

subsection \<open>The writes of a countdown\<close>

lemma startCountdown_host:
  assumes "strVal (roomCode ctx) \<noteq> []" and "isHost ctx"
  shows "startCountdown ctx songName now =
      [(now, BuzzEnabledWrite False now),
       (now, CountdownWrite True 3 (Assign now)),
       (now, CountdownWrite True 3 (Assign now)),
       (now + 1000, CountdownWrite True 2 (Assign (now + 1000))),
       (now + 2000, CountdownWrite True 1 (Assign (now + 2000))),
       (now + 3000, CountdownWrite False 0 Unchanged),
       (now + 3000, BuzzEnabledWrite True (now + 3000))]"
  using assms
  by (simp add: startCountdown_def handleDisableBuzzForSong_def handleEnableBuzzForSong_def
      disableBuzz_def enableBuzz_def issuedAt_def numeral_3_eq_3)

subsection \<open>The first song of a turn-based game\<close>

lemma play_first_song:
  "executePlayAudio (client ''h'' ''Host'' turnBasedMode) ''song.mp3'' ColLeft 0 =
     [(0, CurrentSongWrite ''song.mp3''), (0, BuzzEnabledWrite False 0),
      (0, TurnWrite ''a'' ''Ann'' 1 0 True), (0, BuzzEnabledWrite True 0),
      (15000, AdvantagePhaseWrite False)]"
  by (simp add: executePlayAudio_def Let_def handleDisableBuzzForSong_def
      handleEnableBuzzForSong_def disableBuzz_def enableBuzz_def issuedAt_def isHost_def
      client_simps room0_def member_def turnBasedMode_def noSettings_def turnBasedOn_def
      jsRem_def js_defs)

section \<open>The race for the buzz\<close>

text \<open>
  C1. The claim: when N \<ge> 2 participants call \<open>handleBuzz\<close> concurrently on a room with
  no winner and buzz enabled, exactly one call records a winner and the other N - 1 are
  rejected, the winner being written by one atomic conditional update.

  What the code does: \<open>handleBuzz\<close> tests \<open>buzzEnabled\<close> and \<open>winnerInfo\<close> on the caller's
  snapshot and then writes the winner with an unconditional \<open>update\<close>. Calls made one
  after the other, each on a snapshot that shows the writes of the calls before it,
  record at most one winner, whatever the room and the callers; if the room has buzz
  enabled and no winner and every caller has a room code, an id and a name and is under
  no turn-based or expert rule, the first call wins, all later ones are rejected and the
  winner in the store is the first caller. The same callers, all holding the snapshot
  taken before any of them wrote, are all accepted, and the winner left in the store is
  the one written last.
\<close>

theorem one_winner_when_serial:
  "length (filter (\<lambda>b. b) (fst (serialBuzz cs st))) \<le> 1
   \<and> (cs \<noteq> [] \<and> list_all plainCaller cs \<and> flag (buzzEnabled (room st))
        \<and> winnerInfo (room st) = None \<longrightarrow>
        fst (serialBuzz cs st) = True # replicate (length cs - 1) False
        \<and> winnerInfo (room (snd (serialBuzz cs st))) = Some (winnerRecordOf (hd cs))
        \<and> fst (racingBuzz cs st) = replicate (length cs) True
        \<and> winnerInfo (room (snd (racingBuzz cs st))) = Some (winnerRecordOf (last cs)))"
proof (intro conjI impI)
  show "length (filter (\<lambda>b. b) (fst (serialBuzz cs st))) \<le> 1"
    by (rule serialBuzz_at_most_one)
next
  assume h: "cs \<noteq> [] \<and> list_all plainCaller cs \<and> flag (buzzEnabled (room st))
        \<and> winnerInfo (room st) = None"
  then obtain c rest where cs: "cs = c # rest" by (cases cs) auto
  have c: "plainCaller c" using h cs by simp
  show "fst (serialBuzz cs st) = True # replicate (length cs - 1) False"
    using h cs serialBuzz_first_wins(1) [OF c, of st rest] by simp
  show "winnerInfo (room (snd (serialBuzz cs st))) = Some (winnerRecordOf (hd cs))"
    using h cs serialBuzz_first_wins(2) [OF c, of st rest] by simp
  show "fst (racingBuzz cs st) = replicate (length cs) True"
    using h racingBuzz_all_win by blast
  show "winnerInfo (room (snd (racingBuzz cs st))) = Some (winnerRecordOf (last cs))"
    using h racingBuzz_last_wins by blast
qed

text \<open>
  Ann, Bob and Cy buzz on the sample room: in sequence only Ann wins and stays the
  winner; in a race all three write and Cy, the last, stays the winner.
\<close>

theorem one_winner_when_serial_witness:
  "list_all plainCaller [(client ''a'' ''Ann'' classicMode, 100),
      (client ''b'' ''Bob'' classicMode, 101), (client ''c'' ''Cy'' classicMode, 102)]
   \<and> fst (serialBuzz [(client ''a'' ''Ann'' classicMode, 100),
      (client ''b'' ''Bob'' classicMode, 101), (client ''c'' ''Cy'' classicMode, 102)] store0)
       = [True, False, False]
   \<and> map_option w_playerId (winnerInfo (room (snd (serialBuzz
      [(client ''a'' ''Ann'' classicMode, 100),
       (client ''b'' ''Bob'' classicMode, 101), (client ''c'' ''Cy'' classicMode, 102)] store0))))
       = Some ''a''
   \<and> fst (racingBuzz [(client ''a'' ''Ann'' classicMode, 100),
      (client ''b'' ''Bob'' classicMode, 101), (client ''c'' ''Cy'' classicMode, 102)] store0)
       = [True, True, True]
   \<and> map_option w_playerId (winnerInfo (room (snd (racingBuzz
      [(client ''a'' ''Ann'' classicMode, 100),
       (client ''b'' ''Bob'' classicMode, 101), (client ''c'' ''Cy'' classicMode, 102)] store0))))
       = Some ''c''"
proof -
  let ?cs = "[(client ''a'' ''Ann'' classicMode, 100::int),
      (client ''b'' ''Bob'' classicMode, 101), (client ''c'' ''Cy'' classicMode, 102)]"
  have h1: "?cs \<noteq> []" by simp
  have h2: "list_all plainCaller ?cs"
    by (simp add: plainCaller_def client_simps classicMode_def turnBasedOn_def expertOn_def js_defs)
  have h3: "flag (buzzEnabled (room store0))"
    by (simp add: store0_def room0_def js_defs)
  have h4: "winnerInfo (room store0) = None"
    by (simp add: store0_def room0_def)
  have "fst (serialBuzz ?cs store0) = True # replicate (length ?cs - 1) False
        \<and> winnerInfo (room (snd (serialBuzz ?cs store0))) = Some (winnerRecordOf (hd ?cs))
        \<and> fst (racingBuzz ?cs store0) = replicate (length ?cs) True
        \<and> winnerInfo (room (snd (racingBuzz ?cs store0))) = Some (winnerRecordOf (last ?cs))"
    using one_winner_when_serial [of ?cs store0] h1 h2 h3 h4 by blast
  then show ?thesis
    using h2 by (simp add: numeral_3_eq_3 winnerRecordOf_def client_simps js_defs)
qed

text \<open>
  Ann and Bob buzz on the same snapshot of the sample room: both calls are accepted, none
  is rejected, and the record that stays is Bob's, the later write.
\<close>

theorem one_winner_when_serial_counterexample:
  "fst (racingBuzz [(client ''a'' ''Ann'' classicMode, 100), (client ''b'' ''Bob'' classicMode, 101)]
         store0) = [True, True]
   \<and> map_option w_playerId (winnerInfo (room (snd (racingBuzz
         [(client ''a'' ''Ann'' classicMode, 100), (client ''b'' ''Bob'' classicMode, 101)]
         store0)))) = Some ''b''"
  by (simp add: racingBuzz_def buzzWrites_def handleBuzz_def Let_def issued_simps
      buzzAccepted_simps applyUpdates_Cons applyUpdates_Nil synced_simps client_simps store0_def
      room0_def classicMode_def turnBasedOn_def expertOn_def js_defs)

section \<open>Accepting and rejecting a buzz\<close>




section \<open>Scoring an answer\<close>

text \<open>
  C3. The claim: a correct answer gives the winner \<open>points + mode.pointsCorrect\<close>
  (default 10), one more streak, \<open>bestStreak = max(bestStreak, streak)\<close> and one more
  correct answer; a wrong answer gives \<open>max(0, points - mode.pointsWrong)\<close> (default 5),
  streak 0 and one more wrong answer; a player at 0 points has 10 points and streak 1
  after a correct answer, then 5 points and streak 0 after a wrong one; points are never
  negative.

  The code at a concrete run: the mode sets \<open>pointsWrong = 0\<close>, Ann has 7 points and is
  the winner, and the host judges her answer wrong. \<open>settings.pointsWrong || 5\<close> takes
  the configured 0 for a missing value, so the points written are \<open>max(0, 7 - 5) = 2\<close>,
  where the mode's own value gives \<open>max(0, 7 - 0) = 7\<close>. The streak and the count of
  wrong answers are written as claimed.
\<close>

theorem wrong_answer_ignores_zero_penalty:
  "modeSetting pointsWrong (Some noPenaltyMode) = Some 0
   \<and> map_option points (map_of (players sevenRoom) ''a'') = Some (Some 7)
   \<and> awardWrongAnswer ((client ''h'' ''Host'' noPenaltyMode)\<lparr>roomData := Some sevenRoom\<rparr>) 9 =
       [Update (PlayerWrite ''a''
          \<lparr>pp_points = Some 2, pp_currentStreak = Some 0, pp_bestStreak = None,
           pp_correctAnswers = None, pp_wrongAnswers = Some 1, pp_lastAnswerTime = Some 9\<rparr>),
        Service RejectPlayerAnswer, Update (BuzzEnabledWrite False 9)]"
proof -
  let ?host = "(client ''h'' ''Host'' noPenaltyMode)\<lparr>roomData := Some sevenRoom\<rparr>"
  let ?ann = "(member ''Ann'' False)\<lparr>points := Some 7\<rparr>"
  have m: "modeSetting pointsWrong (Some noPenaltyMode) = Some 0"
    by (simp add: noPenaltyMode_def classicMode_def noSettings_def js_defs)
  have h1: "strVal (roomCode ?host) \<noteq> []"
    by (simp add: client_def js_defs)
  have h2: "isHost ?host"
    by (simp add: isHost_def client_def sevenRoom_def member_def js_defs)
  have h3: "roomData ?host = Some sevenRoom"
    by simp
  have h4: "winnerInfo sevenRoom = Some annWins"
    by (simp add: sevenRoom_def)
  have h5: "map_of (players sevenRoom) (w_playerId annWins) = Some ?ann"
    by (simp add: sevenRoom_def annWins_def)
  have mode: "currentGameMode ?host = Some noPenaltyMode"
    by (simp add: client_def)
  have w: "awardWrongAnswer ?host 9 =
       [Update (PlayerWrite ''a''
          \<lparr>pp_points = Some 2, pp_currentStreak = Some 0, pp_bestStreak = None,
           pp_correctAnswers = None, pp_wrongAnswers = Some 1, pp_lastAnswerTime = Some 9\<rparr>),
        Service RejectPlayerAnswer, Update (BuzzEnabledWrite False 9)]"
    using award_writes(2) [OF h1 h2 h3 h4 h5, of 9]
    by (simp add: mode m annWins_def member_def blankPlayer_def numOr_def)
  have p: "map_option points (map_of (players sevenRoom) ''a'') = Some (Some 7)"
    by (simp add: sevenRoom_def)
  show ?thesis
    using m p w by blast
qed

section \<open>The countdown\<close>

text \<open>
  C4. The claim: a countdown of 3 steps writes the values [3, 2, 1, 0] with the active
  flags [true, true, true, false], each tick one time unit after the one before, the
  value falling by 1 per tick down to the terminal write \<open>{active: false, value: 0}\<close>.

  What the code does: a countdown run by the host writes the values [3, 3, 2, 1, 0] with
  the active flags [true, true, true, true, false]. The opening write of 3 is followed
  at once by the first tick of the loop, which writes 3 again; the ticks 3, 2 and 1 are
  1000 ms apart and the terminal write \<open>{isActive: false, value: 0}\<close> comes 1000 ms
  after the tick 1. The number of steps is fixed at 3.
\<close>

theorem countdown_writes:
  assumes "strVal (roomCode ctx) \<noteq> []" and "isHost ctx"
  shows "countdownLog (startCountdown ctx songName now) =
      [(now, True, 3), (now, True, 3), (now + 1000, True, 2), (now + 2000, True, 1),
       (now + 3000, False, 0)]"
  by (simp add: startCountdown_host [OF assms])

text \<open>The host of the sample room starts a countdown at instant 500.\<close>

theorem countdown_writes_witness:
  "isHost (client ''h'' ''Host'' classicMode)
   \<and> countdownLog (startCountdown (client ''h'' ''Host'' classicMode) ''song'' 500) =
      [(500, True, 3), (500, True, 3), (1500, True, 2), (2500, True, 1), (3500, False, 0)]"
proof -
  have h1: "strVal (roomCode (client ''h'' ''Host'' classicMode)) \<noteq> []"
    by (rule host_has_room)
  have h2: "isHost (client ''h'' ''Host'' classicMode)"
    by (rule host_is_host)
  show ?thesis
    using h2 countdown_writes [OF h1 h2, of "''song''" 500] by simp
qed

text \<open>The values the host's countdown writes are five, with 3 twice.\<close>

theorem countdown_writes_counterexample:
  "map (\<lambda>e. snd (snd e))
       (countdownLog (startCountdown (client ''h'' ''Host'' classicMode) ''song'' 0))
     = [3, 3, 2, 1, 0]
   \<and> map (\<lambda>e. fst (snd e))
       (countdownLog (startCountdown (client ''h'' ''Host'' classicMode) ''song'' 0))
     = [True, True, True, True, False]
   \<and> map (\<lambda>e. snd (snd e))
       (countdownLog (startCountdown (client ''h'' ''Host'' classicMode) ''song'' 0))
     \<noteq> [3, 2, 1, 0]"
  by (simp add: startCountdown_def handleDisableBuzzForSong_def handleEnableBuzzForSong_def
      disableBuzz_def enableBuzz_def issuedAt_def numeral_3_eq_3 isHost_def client_def room0_def
      member_def js_defs)

section \<open>Turn-based mode\<close>

text \<open>
  C5. The claim: under turn-based mode, while \<open>advantagePhase\<close> is true only the player
  of the turn may buzz; \<open>advantagePhase\<close> becomes false exactly \<open>turnAdvantageSeconds\<close>
  (10 seconds in the turn-based mode's settings) after the start of the turn, and from
  then on any participant may buzz.

  The code at a concrete run: the host of the sample room, under the predefined
  turn-based mode with \<open>turnAdvantageSeconds = 10\<close>, starts a song at instant 0 and the
  turn goes to Ann. The write that ends the advantage phase is issued at 15000 ms. At
  12000 ms the phase is still on in the store and Bob's buzz is rejected, although
  \<open>turnAdvantageTimeLeft\<close>, which reads the setting, is already 0 and Bob's button is
  no longer disabled; Bob's buzz is accepted at 15000 ms.
\<close>

theorem advantage_lasts_fifteen_seconds:
  "modeSetting turnAdvantageSeconds (Some turnBasedMode) = Some 10
   \<and> executePlayAudio (client ''h'' ''Host'' turnBasedMode) ''song.mp3'' ColLeft 0 =
       [(0, CurrentSongWrite ''song.mp3''), (0, BuzzEnabledWrite False 0),
        (0, TurnWrite ''a'' ''Ann'' 1 0 True), (0, BuzzEnabledWrite True 0),
        (15000, AdvantagePhaseWrite False)]
   \<and> advantagePhase (turnOf (room (storeAt
        (executePlayAudio (client ''h'' ''Host'' turnBasedMode) ''song.mp3'' ColLeft 0) 12000 store0)))
   \<and> turnAdvantageTimeLeft (synced (client ''b'' ''Bob'' turnBasedMode) (storeAt
        (executePlayAudio (client ''h'' ''Host'' turnBasedMode) ''song.mp3'' ColLeft 0) 12000 store0))
        12000 = 0
   \<and> \<not> buzzButtonDisabled (synced (client ''b'' ''Bob'' turnBasedMode) (storeAt
        (executePlayAudio (client ''h'' ''Host'' turnBasedMode) ''song.mp3'' ColLeft 0) 12000 store0))
        False False 12000
   \<and> handleBuzz (synced (client ''b'' ''Bob'' turnBasedMode) (storeAt
        (executePlayAudio (client ''h'' ''Host'' turnBasedMode) ''song.mp3'' ColLeft 0) 12000 store0))
        None None 12000 = Inr []
   \<and> buzzAccepted (buzzWrites (synced (client ''b'' ''Bob'' turnBasedMode) (storeAt
        (executePlayAudio (client ''h'' ''Host'' turnBasedMode) ''song.mp3'' ColLeft 0) 15000 store0))
        None None 15000)"
proof -
  let ?tws = "executePlayAudio (client ''h'' ''Host'' turnBasedMode) ''song.mp3'' ColLeft 0"
  let ?bob = "client ''b'' ''Bob'' turnBasedMode"
  have m: "modeSetting turnAdvantageSeconds (Some turnBasedMode) = Some 10"
    by (simp add: turnBasedMode_def noSettings_def js_defs)
  have on: "turnBasedOn (Some turnBasedMode)"
    by (simp add: turnBasedOn_def turnBasedMode_def noSettings_def js_defs)
  have off: "\<not> expertOn (Some turnBasedMode)"
    by (simp add: expertOn_def turnBasedMode_def)
  have tb: "modeType turnBasedMode = turnBased"
    by (simp add: turnBasedMode_def)
  have r12: "room (storeAt ?tws 12000 store0) =
      room0\<lparr>currentSong := Some ''song.mp3'', buzzEnabled := Some True,
             currentTurn := Some (blankTurn\<lparr>t_playerId := ''a'', t_playerName := ''Ann'',
               turnNumber := 1, startTime := Some 0, advantagePhase := True\<rparr>)\<rparr>"
    unfolding play_first_song
    by (simp add: storeAt_Cons storeAt_Nil store0_def turnOf_def room0_def)
  have r15: "room (storeAt ?tws 15000 store0) =
      room0\<lparr>currentSong := Some ''song.mp3'', buzzEnabled := Some True,
             currentTurn := Some (blankTurn\<lparr>t_playerId := ''a'', t_playerName := ''Ann'',
               turnNumber := 1, startTime := Some 0, advantagePhase := False\<rparr>)\<rparr>"
    unfolding play_first_song
    by (simp add: storeAt_Cons storeAt_Nil store0_def turnOf_def room0_def)
  have a: "advantagePhase (turnOf (room (storeAt ?tws 12000 store0)))"
    by (simp add: r12 turnOf_def)
  have b: "turnAdvantageTimeLeft (synced ?bob (storeAt ?tws 12000 store0)) 12000 = 0"
    by (simp add: turnAdvantageTimeLeft_def Let_def synced_simps client_simps r12 m numOr_def)
  have e: "\<not> buzzButtonDisabled (synced ?bob (storeAt ?tws 12000 store0)) False False 12000"
    using b tb
    by (simp add: buzzButtonDisabled_def isAdvantagePhase_def hasAlreadyAttempted_def
        modeIs_def off synced_simps client_simps)
  have c: "handleBuzz (synced ?bob (storeAt ?tws 12000 store0)) None None 12000 = Inr []"
    by (simp add: handleBuzz_def Let_def synced_simps client_simps r12 on turnOf_def room0_def
        js_defs)
  have d: "buzzAccepted (buzzWrites (synced ?bob (storeAt ?tws 15000 store0)) None None 15000)"
    by (simp add: buzzWrites_accepts synced_simps client_simps r15 on off turnOf_def room0_def
        js_defs)
  show ?thesis
    using m play_first_song a b c d e by blast
qed

text \<open>
  C6. The claim: activating turn-based mode builds the turn order from the players that
  are not the host, in join order, and gives the turn to the first of them; with
  players [A, B, C] the order is [A, B, C], the current player is A, and three advances
  of the turn come back to A.

  The code at a concrete run: the host of the sample room (players Ann, Bob, Cy)
  activates turn-based mode. The order written holds the host too, and the turn goes to
  the host. The songs that follow give the turn to Bob, Cy and Ann, the player of the
  turn being picked among the players that are not the host.
\<close>

theorem turn_order_includes_host:
  "setGameMode (client ''h'' ''Host'' classicMode) turnBasedMode 0 =
     [GameModeWrite turnBasedMode None
        (Some \<lparr>t_playerId = ''h'', t_playerName = ''Host'', turnNumber = 1, startTime = Some 0,
               advantagePhase = True,
               turnOrder = Some [(''h'', ''Host''), (''a'', ''Ann''), (''b'', ''Bob''),
                                 (''c'', ''Cy'')],
               nextPlayerIndex = Some 1\<rparr>)]
   \<and> p_isHost (playerOf room0 ''h'')
   \<and> map (\<lambda>st. t_playerId (turnOf (room st)))
        [applyUpdates (setGameMode (client ''h'' ''Host'' classicMode) turnBasedMode 0) store0,
         nextSong (client ''h'' ''Host'' turnBasedMode) 1
           (applyUpdates (setGameMode (client ''h'' ''Host'' classicMode) turnBasedMode 0) store0),
         nextSong (client ''h'' ''Host'' turnBasedMode) 2
           (nextSong (client ''h'' ''Host'' turnBasedMode) 1
             (applyUpdates (setGameMode (client ''h'' ''Host'' classicMode) turnBasedMode 0) store0)),
         nextSong (client ''h'' ''Host'' turnBasedMode) 3
           (nextSong (client ''h'' ''Host'' turnBasedMode) 2
             (nextSong (client ''h'' ''Host'' turnBasedMode) 1
               (applyUpdates (setGameMode (client ''h'' ''Host'' classicMode) turnBasedMode 0) store0)))]
      = [''h'', ''b'', ''c'', ''a'']"
  by (simp add: setGameMode_def nextSong_def executePlayAudio_def Let_def storeAt_Cons storeAt_Nil
      applyUpdates_Cons applyUpdates_Nil handleDisableBuzzForSong_def
      handleEnableBuzzForSong_def disableBuzz_def enableBuzz_def issuedAt_def isHost_def
      synced_simps client_simps playerOf_def turnOf_def pick_def
      store0_def room0_def member_def turnBasedMode_def noSettings_def turnBasedOn_def
      jsRem_def js_defs)

section \<open>Expert mode\<close>

text \<open>
  C7. The claim: under expert mode with one attempt per song and a current song, a
  participant already recorded for the current song is denied for it and allowed for a
  different song; the participant is recorded as part of the buzz, before the winner
  check, and recording the same participant twice changes nothing.

  What the code does: the current song is the name of the file the host's player
  started, and the picker admits only names that end in \<open>.mp3\<close>, \<open>.wav\<close> or \<open>.ogg\<close>.
  Such a name holds a \<open>.\<close> and is no key the database accepts, so the update that would
  record the attempt under that name throws, outside the \<open>try\<close> block of \<open>handleBuzz\<close>.
  Once the host's player has started a song under expert mode, with no winner in the
  store, the song is current and buzz is enabled, but a buzz of any player under expert
  mode writes nothing: neither the attempt nor the winner. For a player not recorded for
  the song the call throws.
\<close>

theorem expert_buzz_throws_on_song_name:
  assumes "strVal (roomCode host) \<noteq> []" and "isHost host"
    and "expertOn (currentGameMode host)" and "audioFile fileName"
    and "winnerInfo (room st) = None"
    and "expertOn (currentGameMode ctx)" and "strVal (roomCode ctx) \<noteq> []"
    and "strVal (playerId ctx) \<noteq> []" and "strVal (playerName ctx) \<noteq> []"
  shows "currentSong (room (storeAt (executePlayAudio host fileName ColLeft now) now st))
           = Some fileName
       \<and> buzzEnabled (room (storeAt (executePlayAudio host fileName ColLeft now) now st))
           = Some True
       \<and> winnerInfo (room (storeAt (executePlayAudio host fileName ColLeft now) now st)) = None
       \<and> buzzWrites (synced ctx (storeAt (executePlayAudio host fileName ColLeft now) now st))
            None None called = []
       \<and> (strVal (playerId ctx) \<notin> set (attemptedPlayers
              (room (storeAt (executePlayAudio host fileName ColLeft now) now st)) fileName) \<longrightarrow>
            (\<exists>k. handleBuzz (synced ctx (storeAt (executePlayAudio host fileName ColLeft now) now st))
                   None None called = Inl (InvalidKey k)))"
proof -
  let ?st = "storeAt (executePlayAudio host fileName ColLeft now) now st"
  obtain g where g: "currentGameMode host = Some g" "modeType g = expert"
    using assms(3) by (cases "currentGameMode host") (auto simp: expertOn_def)
  have play: "executePlayAudio host fileName ColLeft now =
      [(now, CurrentSongWrite fileName), (now, BuzzEnabledWrite True now)]"
    using assms(1,2) g
    by (simp add: executePlayAudio_def turnBasedOn_def handleEnableBuzzForSong_def
        enableBuzz_def issuedAt_def)
  have r: "room ?st = (room st)\<lparr>currentSong := Some fileName, buzzEnabled := Some True\<rparr>"
    unfolding play by (simp add: storeAt_Cons storeAt_Nil)
  have song: "strVal (currentSong (room ?st)) = fileName"
    by (simp add: r strVal_def)
  have sv: "strVal (Some fileName) = fileName"
    by (simp add: strVal_def)
  have dot: "CHR ''.'' \<in> set fileName"
    using assms(4) by (rule audioFile_has_dot)
  then have ne: "fileName \<noteq> []"
    by auto
  have bad: "invalidKey (updatedAttempts (room ?st) (strVal (playerId ctx))) \<noteq> None"
    unfolding updatedAttempts_def song
    using dotted_key_invalid [OF dot] by (rule invalidKey_of_update)
  have ids: "orStr None (playerId ctx) = strVal (playerId ctx)"
    "orStr None (playerName ctx) = strVal (playerName ctx)"
    by (simp_all add: orStr_def strVal_def)
  have no_write: "buzzWrites (synced ctx ?st) None None called = []"
  proof (rule buzzWrites_rejects)
    show "\<not> buzzAccepted (buzzWrites (synced ctx ?st) None None called)"
      using assms(6) bad ne by (simp add: buzzWrites_accepts synced_simps ids song)
  qed
  have throws: "strVal (playerId ctx) \<notin> set (attemptedPlayers (room ?st) fileName) \<longrightarrow>
      (\<exists>k. handleBuzz (synced ctx ?st) None None called = Inl (InvalidKey k))"
  proof
    assume fresh: "strVal (playerId ctx) \<notin> set (attemptedPlayers (room ?st) fileName)"
    obtain k where k: "invalidKey (updatedAttempts (room ?st) (strVal (playerId ctx))) = Some k"
      using bad by auto
    have "handleBuzz (synced ctx ?st) None None called = Inl (InvalidKey k)"
      using assms(5,6,7,8,9) fresh k ne expert_not_turnBased [OF assms(6)] sv
      by (simp add: handleBuzz_def Let_def synced_simps ids r flag_def)
    then show "\<exists>k. handleBuzz (synced ctx ?st) None None called = Inl (InvalidKey k)"
      by blast
  qed
  have song_set: "currentSong (room ?st) = Some fileName"
    by (simp add: r)
  have enabled: "buzzEnabled (room ?st) = Some True"
    by (simp add: r)
  have no_winner: "winnerInfo (room ?st) = None"
    using assms(5) by (simp add: r)
  show ?thesis
    using song_set enabled no_winner no_write throws by blast
qed

text \<open>
  The host of the sample room starts \<open>song.mp3\<close> under expert mode; Ann, who has tried no
  song, buzzes: the call throws on the key \<open>song.mp3\<close> and the store holds neither an
  attempt nor a winner.
\<close>

theorem expert_buzz_throws_on_song_name_witness:
  "audioFile ''song.mp3''
   \<and> currentSong (room playingStore) = Some ''song.mp3''
   \<and> buzzEnabled (room playingStore) = Some True
   \<and> handleBuzz (synced (client ''a'' ''Ann'' expertMode) playingStore) None None 100
       = Inl (InvalidKey ''song.mp3'')
   \<and> buzzWrites (synced (client ''a'' ''Ann'' expertMode) playingStore) None None 100 = []
   \<and> songAttempts (room (applyUpdates
        (buzzWrites (synced (client ''a'' ''Ann'' expertMode) playingStore) None None 100)
        playingStore)) = None
   \<and> winnerInfo (room (applyUpdates
        (buzzWrites (synced (client ''a'' ''Ann'' expertMode) playingStore) None None 100)
        playingStore)) = None"
proof -
  let ?host = "client ''h'' ''Host'' expertMode"
  let ?ann = "client ''a'' ''Ann'' expertMode"
  have on: "expertOn (Some expertMode)"
    by (simp add: expertOn_def expertMode_def noSettings_def js_defs)
  have h1: "strVal (roomCode ?host) \<noteq> []" by (rule host_has_room)
  have h2: "isHost ?host" by (rule host_is_host)
  have h3: "expertOn (currentGameMode ?host)" by (simp add: client_simps on)
  have h4: "audioFile ''song.mp3''" by (simp add: audioFile_def ci_def)
  have h5: "winnerInfo (room store0) = None" by (simp add: store0_def room0_def)
  have h6: "expertOn (currentGameMode ?ann)" by (simp add: client_simps on)
  have h7: "strVal (roomCode ?ann) \<noteq> []" by (rule host_has_room)
  have h8: "strVal (playerId ?ann) \<noteq> []" by (simp add: client_simps js_defs)
  have h9: "strVal (playerName ?ann) \<noteq> []" by (simp add: client_simps js_defs)
  note t = expert_buzz_throws_on_song_name [OF h1 h2 h3 h4 h5 h6 h7 h8 h9, of 0 100,
      folded playingStore_def]
  have none: "songAttempts (room playingStore) = None"
    by (simp add: playingStore_def executePlayAudio_def turnBasedOn_def expertMode_def
        handleEnableBuzzForSong_def enableBuzz_def issuedAt_def host_is_host client_simps
        storeAt_Cons storeAt_Nil store0_def room0_def js_defs)
  have fresh: "strVal (playerId ?ann) \<notin> set (attemptedPlayers (room playingStore) ''song.mp3'')"
    by (simp add: attemptedPlayers_def attemptsOf_def none)
  have key: "invalidKey (updatedAttempts (room playingStore) ''a'') = Some ''song.mp3''"
    using t by (simp add: updatedAttempts_def attemptedPlayers_def attemptsOf_def none
        invalidKey_def validKey_def forbiddenChar_def js_defs)
  have thrown: "handleBuzz (synced ?ann playingStore) None None 100 = Inl (InvalidKey ''song.mp3'')"
    using t [THEN conjunct1] t [THEN conjunct2, THEN conjunct1]
      t [THEN conjunct2, THEN conjunct2, THEN conjunct1] fresh key on
      expert_not_turnBased [OF on]
    by (simp add: handleBuzz_def Let_def synced_simps client_simps js_defs)
  show ?thesis
    using t h4 none thrown by (simp add: applyUpdates_Nil)
qed

section \<open>The countdown and the buzz\<close>

text \<open>
  C8. The claim: whenever the countdown of the room is active, no buzz of any
  participant is accepted, whatever the mode rules say.

  What the code does: \<open>handleBuzz\<close> does not read the countdown; its verdict is the same
  whatever the countdown holds. The countdown blocks the buzz through \<open>buzzEnabled\<close>:
  a countdown run by the host issues, in this order, \<open>buzzEnabled = false\<close>, the five
  countdown writes, and \<open>buzzEnabled = true\<close>. After each of the first six writes buzz
  is disabled in the store and every \<open>handleBuzz\<close> on a snapshot of it is rejected; the
  countdown is active after the second to the fifth write and no longer after the sixth;
  buzz is enabled again only by the seventh. In time: from the start of the run until
  3000 ms later, as long as no other write reaches the store, the countdown is active,
  buzz is disabled and every \<open>handleBuzz\<close> on a snapshot of the store is rejected.
\<close>

theorem countdown_keeps_buzz_disabled:
  assumes "strVal (roomCode host) \<noteq> []" and "isHost host"
  shows "startCountdown host songName now =
           [(now, BuzzEnabledWrite False now),
            (now, CountdownWrite True 3 (Assign now)),
            (now, CountdownWrite True 3 (Assign now)),
            (now + 1000, CountdownWrite True 2 (Assign (now + 1000))),
            (now + 2000, CountdownWrite True 1 (Assign (now + 2000))),
            (now + 3000, CountdownWrite False 0 Unchanged),
            (now + 3000, BuzzEnabledWrite True (now + 3000))]
       \<and> (\<forall>k. 1 \<le> k \<and> k \<le> 6 \<longrightarrow>
             buzzEnabled (room (afterWrites k (startCountdown host songName now) st)) = Some False
             \<and> handleBuzz (synced ctx (afterWrites k (startCountdown host songName now) st))
                  i n called = Inr [])
       \<and> (\<forall>k. 2 \<le> k \<and> k \<le> 5 \<longrightarrow>
             isActive (countdownOf (afterWrites k (startCountdown host songName now) st)))
       \<and> (\<forall>k. 6 \<le> k \<longrightarrow>
             \<not> isActive (countdownOf (afterWrites k (startCountdown host songName now) st)))
       \<and> (\<forall>k. 7 \<le> k \<longrightarrow>
             buzzEnabled (room (afterWrites k (startCountdown host songName now) st)) = Some True)
       \<and> (\<forall>t. now \<le> t \<and> t < now + 3000 \<longrightarrow>
             isActive (countdownOf (storeAt (startCountdown host songName now) t st))
             \<and> buzzEnabled (room (storeAt (startCountdown host songName now) t st)) = Some False
             \<and> handleBuzz (synced ctx (storeAt (startCountdown host songName now) t st))
                  i n called = Inr [])
       \<and> handleBuzz (synced ctx (st\<lparr>countdown := cd\<rparr>)) i n called
           = handleBuzz (synced ctx st) i n called"
proof (intro conjI allI impI)
  note ws = startCountdown_host [OF assms, of songName now]
  show "startCountdown host songName now =
           [(now, BuzzEnabledWrite False now),
            (now, CountdownWrite True 3 (Assign now)),
            (now, CountdownWrite True 3 (Assign now)),
            (now + 1000, CountdownWrite True 2 (Assign (now + 1000))),
            (now + 2000, CountdownWrite True 1 (Assign (now + 2000))),
            (now + 3000, CountdownWrite False 0 Unchanged),
            (now + 3000, BuzzEnabledWrite True (now + 3000))]"
    by (rule ws)
  {
    fix k :: nat
    assume k: "1 \<le> k \<and> k \<le> 6"
    then have "k = 1 \<or> k = 2 \<or> k = 3 \<or> k = 4 \<or> k = 5 \<or> k = 6"
      by arith
    then show off: "buzzEnabled (room (afterWrites k (startCountdown host songName now) st))
        = Some False"
      unfolding ws
      by (elim disjE) (simp_all add: afterWrites_def applyUpdates_Cons applyUpdates_Nil)
    show "handleBuzz (synced ctx (afterWrites k (startCountdown host songName now) st))
        i n called = Inr []"
      using off handleBuzz_disabled [of "synced ctx (afterWrites k (startCountdown host songName now) st)"
          "room (afterWrites k (startCountdown host songName now) st)" i n called]
      by (simp add: synced_simps)
  }
  {
    fix k :: nat
    assume "2 \<le> k \<and> k \<le> 5"
    then have "k = 2 \<or> k = 3 \<or> k = 4 \<or> k = 5"
      by arith
    then show "isActive (countdownOf (afterWrites k (startCountdown host songName now) st))"
      unfolding ws
      by (elim disjE)
         (simp_all add: afterWrites_def applyUpdates_Cons applyUpdates_Nil countdownOf_def)
  }
  {
    fix k :: nat
    assume "6 \<le> k"
    then have "k = 6 \<or> 7 \<le> k"
      by arith
    then show "\<not> isActive (countdownOf (afterWrites k (startCountdown host songName now) st))"
      unfolding ws
      by (elim disjE)
         (simp_all add: afterWrites_def applyUpdates_Cons applyUpdates_Nil countdownOf_def)
  }
  {
    fix k :: nat
    assume "7 \<le> k"
    then show "buzzEnabled (room (afterWrites k (startCountdown host songName now) st))
        = Some True"
      unfolding ws
      by (simp add: afterWrites_def applyUpdates_Cons applyUpdates_Nil)
  }
  {
    fix t :: int
    assume t: "now \<le> t \<and> t < now + 3000"
    let ?st = "storeAt (startCountdown host songName now) t st"
    show "isActive (countdownOf ?st)"
      using t unfolding ws by (simp add: storeAt_Cons storeAt_Nil countdownOf_def)
    show off: "buzzEnabled (room ?st) = Some False"
      using t unfolding ws by (simp add: storeAt_Cons storeAt_Nil)
    show "handleBuzz (synced ctx ?st) i n called = Inr []"
      using off handleBuzz_disabled [of "synced ctx ?st" "room ?st" i n called]
      by (simp add: synced_simps)
  }
  show "handleBuzz (synced ctx (st\<lparr>countdown := cd\<rparr>)) i n called
      = handleBuzz (synced ctx st) i n called"
    by (simp add: synced_def)
qed

text \<open>
  Ann buzzes on the sample room after the fourth write of a countdown the host started,
  and 1500 ms into it.
\<close>

theorem countdown_keeps_buzz_disabled_witness:
  "isHost (client ''h'' ''Host'' classicMode)
   \<and> isActive (countdownOf
        (afterWrites 4 (startCountdown (client ''h'' ''Host'' classicMode) ''song'' 0) store0))
   \<and> handleBuzz (synced (client ''a'' ''Ann'' classicMode)
        (afterWrites 4 (startCountdown (client ''h'' ''Host'' classicMode) ''song'' 0) store0))
        None None 1500 = Inr []
   \<and> isActive (countdownOf (storeAt (startCountdown (client ''h'' ''Host'' classicMode) ''song'' 0)
        1500 store0))
   \<and> handleBuzz (synced (client ''a'' ''Ann'' classicMode)
        (storeAt (startCountdown (client ''h'' ''Host'' classicMode) ''song'' 0) 1500 store0))
        None None 1500 = Inr []"
proof -
  have h1: "strVal (roomCode (client ''h'' ''Host'' classicMode)) \<noteq> []"
    by (rule host_has_room)
  have h2: "isHost (client ''h'' ''Host'' classicMode)"
    by (rule host_is_host)
  note t = countdown_keeps_buzz_disabled [OF h1 h2, where songName = "''song''" and now = 0
        and st = store0 and ctx = "client ''a'' ''Ann'' classicMode" and i = None and n = None
        and called = 1500]
  have k1: "(1::nat) \<le> 4 \<and> (4::nat) \<le> 6" and k2: "(2::nat) \<le> 4 \<and> (4::nat) \<le> 5"
    and t1: "(0::int) \<le> 1500 \<and> (1500::int) < 0 + 3000"
    by simp_all
  show ?thesis
    using h2 t k1 k2 t1 by blast
qed

text \<open>
  A store whose countdown is active at 2 while buzz is enabled and no winner is recorded:
  Ann's buzz is accepted, her button is not disabled and its click handler passes the
  call on.
\<close>

theorem countdown_keeps_buzz_disabled_counterexample:
  "isActive (countdownOf tickingStore)
   \<and> buzzAccepted
        (buzzWrites (synced (client ''a'' ''Ann'' classicMode) tickingStore) None None 1500)
   \<and> \<not> buzzButtonDisabled (synced (client ''a'' ''Ann'' classicMode) tickingStore)
         False False 1500
   \<and> buzzAccepted (onBuzz (synced (client ''a'' ''Ann'' classicMode) tickingStore)
         False False 1500)"
  by (simp add: buzzWrites_def handleBuzz_def Let_def issued_simps buzzAccepted_simps
      tickingStore_def countdownOf_def
      onBuzz_def buzzButtonDisabled_def isBuzzEnabled_def hasAlreadyAttempted_def modeIs_def
      synced_def client_def store0_def room0_def classicMode_def turnBasedOn_def expertOn_def
      js_defs)

section \<open>Host authority\<close>

text \<open>
  C9. Called by a client whose player record is not marked \<open>isHost\<close>, each of
  \<open>setGameMode\<close>, \<open>enableBuzz\<close>, \<open>disableBuzz\<close>, \<open>startCountdown\<close>, \<open>stopCountdown\<close>,
  \<open>handleResetBuzz\<close>, \<open>awardCorrectAnswer\<close>, \<open>awardWrongAnswer\<close>, \<open>awardSuperAnswer\<close>,
  \<open>awardPoints\<close>, \<open>subtractPlayerPoints\<close> and \<open>rejectAnswer\<close> issues no write and no
  service call, and the store is left as it was.
\<close>

theorem non_host_writes_nothing:
  assumes "\<not> isHost ctx"
  shows "setGameMode ctx mode now = [] \<and> enableBuzz ctx now = [] \<and> disableBuzz ctx now = []
       \<and> startCountdown ctx songName now = [] \<and> stopCountdown ctx = []
       \<and> handleResetBuzz ctx = [] \<and> awardCorrectAnswer ctx now = []
       \<and> awardWrongAnswer ctx now = [] \<and> awardSuperAnswer ctx now = []
       \<and> awardPoints ctx amount now = [] \<and> subtractPlayerPoints ctx amount now = []
       \<and> rejectAnswer ctx now = []
       \<and> applyUpdates (setGameMode ctx mode now) st = st
       \<and> applyUpdates (enableBuzz ctx now) st = st
       \<and> applyUpdates (disableBuzz ctx now) st = st
       \<and> storeAt (startCountdown ctx songName now) t st = st
       \<and> applyUpdates (stopCountdown ctx) st = st
       \<and> applyEffects svc (handleResetBuzz ctx) st = st
       \<and> applyEffects svc (awardCorrectAnswer ctx now) st = st
       \<and> applyEffects svc (awardWrongAnswer ctx now) st = st
       \<and> applyEffects svc (awardSuperAnswer ctx now) st = st
       \<and> applyEffects svc (awardPoints ctx amount now) st = st
       \<and> applyEffects svc (subtractPlayerPoints ctx amount now) st = st
       \<and> applyEffects svc (rejectAnswer ctx now) st = st"
  using assms
  by (simp add: setGameMode_def enableBuzz_def disableBuzz_def startCountdown_def
      stopCountdown_def handleResetBuzz_def awardCorrectAnswer_def awardWrongAnswer_def
      awardSuperAnswer_def awardPoints_def subtractPlayerPoints_def rejectAnswer_def
      applyUpdates_Nil applyEffects_Nil storeAt_def)

text \<open>Ann, who is not the host, calls the host's functions on the sample room.\<close>

theorem non_host_writes_nothing_witness:
  "\<not> isHost (client ''a'' ''Ann'' classicMode)
   \<and> setGameMode (client ''a'' ''Ann'' classicMode) turnBasedMode 5 = []
   \<and> enableBuzz (client ''a'' ''Ann'' classicMode) 5 = []
   \<and> startCountdown (client ''a'' ''Ann'' classicMode) ''song'' 5 = []
   \<and> awardCorrectAnswer (client ''a'' ''Ann'' classicMode) 5 = []
   \<and> applyEffects idleService (handleResetBuzz (client ''a'' ''Ann'' classicMode)) store0
       = store0"
proof -
  have h: "\<not> isHost (client ''a'' ''Ann'' classicMode)"
    by (simp add: isHost_def client_def room0_def member_def strVal_def)
  show ?thesis
    using h non_host_writes_nothing [OF h, where mode = turnBasedMode and now = 5
        and songName = "''song''" and st = store0 and svc = idleService]
    by blast
qed

section \<open>Resetting the buzz under expert mode\<close>

text \<open>
  C10. When the host, holding a snapshot of the store, resets the buzz under expert
  mode with a current song set, the attempts recorded in the store afterwards are those
  recorded before without the entry of the current song: that entry is gone and the
  entry of every other song is as it was. This holds whatever the two service calls
  that precede the write do.
\<close>

theorem reset_removes_current_song_only:
  assumes "strVal (roomCode ctx) \<noteq> []" and "isHost ctx"
    and "currentGameMode ctx = Some g" and "modeType g = expert"
    and "roomData ctx = Some (room st)" and "strVal (currentSong (room st)) = song"
    and "song \<noteq> []"
  shows "attemptsOf (room (applyEffects svc (handleResetBuzz ctx) st))
           = AList.delete song (attemptsOf (room st))
       \<and> map_of (attemptsOf (room (applyEffects svc (handleResetBuzz ctx) st))) song = None
       \<and> (\<forall>other. other \<noteq> song \<longrightarrow>
             map_of (attemptsOf (room (applyEffects svc (handleResetBuzz ctx) st))) other
               = map_of (attemptsOf (room st)) other)"
proof -
  have ws: "handleResetBuzz ctx =
      [Service ResetBuzz, Service UpdateBuzzActivity,
       Update (SongAttemptsWrite (AList.delete song (attemptsOf (room st))))]"
    using assms by (simp add: handleResetBuzz_def)
  have eq: "attemptsOf (room (applyEffects svc (handleResetBuzz ctx) st))
      = AList.delete song (attemptsOf (room st))"
    unfolding ws applyEffects_def by (simp add: attemptsOf_def)
  show ?thesis
    unfolding eq by (simp add: AList.delete_conv')
qed

text \<open>The host resets while \<open>s2\<close> plays: Bob's attempt at \<open>s2\<close> goes, Ann's at \<open>s1\<close> stays.\<close>

theorem reset_removes_current_song_only_witness:
  "isHost (synced (client ''h'' ''Host'' expertMode) expertStore)
   \<and> attemptsOf (room expertStore) = [(''s1'', [''a'']), (''s2'', [''b''])]
   \<and> attemptsOf (room (applyEffects idleService
        (handleResetBuzz (synced (client ''h'' ''Host'' expertMode) expertStore)) expertStore))
       = [(''s1'', [''a''])]"
proof -
  let ?ctx = "synced (client ''h'' ''Host'' expertMode) expertStore"
  have h1: "strVal (roomCode ?ctx) \<noteq> []"
    by (simp add: synced_simps host_has_room)
  have h2: "isHost ?ctx"
    by (simp add: isHost_def synced_def client_def expertStore_def expertRoom_def room0_def
        member_def strVal_def)
  have h3: "currentGameMode ?ctx = Some expertMode"
    by (simp add: synced_simps client_simps)
  have h4: "modeType expertMode = expert"
    by (simp add: expertMode_def)
  have h5: "roomData ?ctx = Some (room expertStore)"
    by (simp add: synced_simps)
  have h6: "strVal (currentSong (room expertStore)) = ''s2''"
    by (simp add: expertStore_def expertRoom_def strVal_def)
  have h7: "''s2'' \<noteq> []"
    by simp
  have before: "attemptsOf (room expertStore) = [(''s1'', [''a'']), (''s2'', [''b''])]"
    by (simp add: attemptsOf_def expertStore_def expertRoom_def)
  from reset_removes_current_song_only [OF h1 h2 h3 h4 h5 h6 h7, of idleService]
  have "attemptsOf (room (applyEffects idleService (handleResetBuzz ?ctx) expertStore))
      = AList.delete ''s2'' (attemptsOf (room expertStore))"
    by blast
  then show ?thesis
    using h2 before by simp
qed

end
